theory Spec2Isabelle
  imports Complex_Main "HOL-Library.Sublist" "HOL-Library.Char_ord" "HOL-Library.List_Lexorder"
begin

section \<open>Python values and the operations the script applies to them\<close>

text \<open>
  The script \<^verbatim>\<open>moodle_course_status-specific.py\<close> works on the values that
  \<^verbatim>\<open>r.json()\<close> parses: \<^verbatim>\<open>None\<close>, booleans, integers, strings, lists and
  dictionaries with string keys. A string is the list of the bytes of its UTF-8 form, so
  ASCII characters are single bytes and every other character is made of bytes from 128
  up. JSON numbers are integers; floating-point numbers are outside the model. A parsed
  object is an association list whose first binding of a key is the one \<^verbatim>\<open>get\<close>
  returns.
\<close>

datatype json =
    JNull
  | JBool bool
  | JInt int
  | JStr string
  | JList "json list"
  | JObj "(string \<times> json) list"

text \<open>
  Exceptions are values. \<open>RequestFailure\<close> stands for whatever \<^verbatim>\<open>requests.post\<close>,
  \<^verbatim>\<open>raise_for_status\<close> or \<^verbatim>\<open>r.json()\<close> raise; the others are the interpreter's
  own. Each carries the text that \<^verbatim>\<open>str(e)\<close> prints.
\<close>

datatype py_exn =
    RequestFailure string
  | RuntimeError string
  | AttributeError string
  | TypeError string
  | KeyError string
  | ValueError string

fun exn_str :: "py_exn \<Rightarrow> string" where
  "exn_str (RequestFailure m) = m"
| "exn_str (RuntimeError m) = m"
| "exn_str (AttributeError m) = m"
| "exn_str (TypeError m) = m"
| "exn_str (KeyError m) = m"
| "exn_str (ValueError m) = m"

subsection \<open>Characters and strings\<close>

definition is_upper :: "char \<Rightarrow> bool" where
  "is_upper c = (65 \<le> (of_char c :: nat) \<and> (of_char c :: nat) \<le> 90)"

definition is_lower :: "char \<Rightarrow> bool" where
  "is_lower c = (97 \<le> (of_char c :: nat) \<and> (of_char c :: nat) \<le> 122)"

definition is_digit :: "char \<Rightarrow> bool" where
  "is_digit c = (48 \<le> (of_char c :: nat) \<and> (of_char c :: nat) \<le> 57)"

text \<open>The character class \<^verbatim>\<open>[A-Za-z0-9]\<close> of the regular expression in line 29.\<close>

definition is_alnum :: "char \<Rightarrow> bool" where
  "is_alnum c = (is_upper c \<or> is_lower c \<or> is_digit c)"

text \<open>
  \<^verbatim>\<open>str.lower\<close> and \<^verbatim>\<open>str.capitalize\<close> follow the case mappings of Unicode, which
  belong to the Python runtime and not to the script. They are parameters of the model:
  every function that calls one of them takes it as its first argument, named
  \<open>lower\<close> or \<open>capitalize\<close>.
\<close>

type_synonym strop = "string \<Rightarrow> string"

text \<open>\<^verbatim>\<open>sep.join(parts)\<close>\<close>

fun py_join :: "string \<Rightarrow> string list \<Rightarrow> string" where
  "py_join sep [] = []"
| "py_join sep [p] = p"
| "py_join sep (p # q # ps) = p @ sep @ py_join sep (q # ps)"

subsection \<open>\<^verbatim>\<open>str\<close> and \<^verbatim>\<open>repr\<close>\<close>

definition digit_char :: "nat \<Rightarrow> char" where
  "digit_char d = char_of (48 + d)"

fun nat_str :: "nat \<Rightarrow> string" where
  "nat_str n = (if n < 10 then [digit_char n] else nat_str (n div 10) @ [digit_char (n mod 10)])"

declare nat_str.simps [simp del]

definition int_str :: "int \<Rightarrow> string" where
  "int_str i = (if i < 0 then CHR ''-'' # nat_str (nat (- i)) else nat_str (nat i))"

definition hex_char :: "nat \<Rightarrow> char" where
  "hex_char d = (if d < 10 then char_of (48 + d) else char_of (87 + d))"

text \<open>
  \<^verbatim>\<open>repr\<close> of a string: double quotes when the text has a single quote and no double
  quote, single quotes otherwise; the quote and the backslash are escaped, and so are the
  control characters. The bytes from 128 up, which make the characters beyond ASCII, stay
  as they are, as printable characters do.
\<close>

definition repr_char :: "char \<Rightarrow> char \<Rightarrow> string" where
  "repr_char q c =
     (if c = q \<or> c = CHR 0x5C then [CHR 0x5C, c]
      else if c = CHR 0x09 then [CHR 0x5C, CHR ''t'']
      else if c = CHR 0x0A then [CHR 0x5C, CHR ''n'']
      else if c = CHR 0x0D then [CHR 0x5C, CHR ''r'']
      else if (of_char c :: nat) < 32 \<or> (of_char c :: nat) = 127
        then [CHR 0x5C, CHR ''x'', hex_char ((of_char c :: nat) div 16), hex_char ((of_char c :: nat) mod 16)]
      else [c])"

definition repr_str :: "string \<Rightarrow> string" where
  "repr_str s =
     (let q = (if CHR 0x27 \<in> set s \<and> CHR 0x22 \<notin> set s then CHR 0x22 else CHR 0x27)
      in q # concat (map (repr_char q) s) @ [q])"

fun py_repr :: "json \<Rightarrow> string" where
  "py_repr JNull = ''None''"
| "py_repr (JBool b) = (if b then ''True'' else ''False'')"
| "py_repr (JInt i) = int_str i"
| "py_repr (JStr s) = repr_str s"
| "py_repr (JList xs) = ''['' @ py_join '', '' (map py_repr xs) @ '']''"
| "py_repr (JObj kvs) =
     ''{'' @ py_join '', '' (map (\<lambda>kv. repr_str (fst kv) @ '': '' @ py_repr (snd kv)) kvs) @ ''}''"

text \<open>\<^verbatim>\<open>str(v)\<close>, also what an f-string writes for \<^verbatim>\<open>{v}\<close>.\<close>

definition py_str :: "json \<Rightarrow> string" where
  "py_str v = (case v of JStr s \<Rightarrow> s | _ \<Rightarrow> py_repr v)"

definition type_name :: "json \<Rightarrow> string" where
  "type_name v = (case v of JNull \<Rightarrow> ''NoneType'' | JBool _ \<Rightarrow> ''bool'' | JInt _ \<Rightarrow> ''int''
     | JStr _ \<Rightarrow> ''str'' | JList _ \<Rightarrow> ''list'' | JObj _ \<Rightarrow> ''dict'')"

definition quoted :: "string \<Rightarrow> string" where
  "quoted s = CHR 0x27 # s @ [CHR 0x27]"

definition no_attribute :: "json \<Rightarrow> string \<Rightarrow> py_exn" where
  "no_attribute v a =
     AttributeError (quoted (type_name v) @ '' object has no attribute '' @ quoted a)"

definition not_iterable :: "json \<Rightarrow> py_exn" where
  "not_iterable v = TypeError (quoted (type_name v) @ '' object is not iterable'')"

definition unhashable :: "json \<Rightarrow> py_exn" where
  "unhashable v = TypeError (''unhashable type: '' @ quoted (type_name v))"

subsection \<open>Truth values, \<^verbatim>\<open>get\<close>, subscripts and iteration\<close>

fun py_truthy :: "json \<Rightarrow> bool" where
  "py_truthy JNull = False"
| "py_truthy (JBool b) = b"
| "py_truthy (JInt i) = (i \<noteq> 0)"
| "py_truthy (JStr s) = (s \<noteq> [])"
| "py_truthy (JList xs) = (xs \<noteq> [])"
| "py_truthy (JObj kvs) = (kvs \<noteq> [])"

text \<open>\<^verbatim>\<open>d.get(k, dflt)\<close> on a parsed object.\<close>

definition obj_get :: "(string \<times> json) list \<Rightarrow> string \<Rightarrow> json \<Rightarrow> json" where
  "obj_get kvs k dflt = (case map_of kvs k of Some x \<Rightarrow> x | None \<Rightarrow> dflt)"

text \<open>\<^verbatim>\<open>v.get(k, dflt)\<close> on any value: only a dictionary has the method.\<close>

definition py_get :: "json \<Rightarrow> string \<Rightarrow> json \<Rightarrow> py_exn + json" where
  "py_get v k dflt = (case v of JObj kvs \<Rightarrow> Inr (obj_get kvs k dflt) | _ \<Rightarrow> Inl (no_attribute v ''get''))"

text \<open>\<^verbatim>\<open>v[k]\<close> for a string \<open>k\<close>.\<close>

definition py_item :: "json \<Rightarrow> string \<Rightarrow> py_exn + json" where
  "py_item v k =
     (case v of
        JObj kvs \<Rightarrow> (case map_of kvs k of Some x \<Rightarrow> Inr x | None \<Rightarrow> Inl (KeyError (repr_str k)))
      | JList _ \<Rightarrow> Inl (TypeError ''list indices must be integers or slices, not str'')
      | JStr _ \<Rightarrow> Inl (TypeError ''string indices must be integers'')
      | _ \<Rightarrow> Inl (TypeError (quoted (type_name v) @ '' object is not subscriptable'')))"

text \<open>
  \<^verbatim>\<open>for x in v\<close>: the items of a list, the keys of a dictionary, the characters of a
  string; anything else is not iterable.
\<close>

definition py_iter :: "json \<Rightarrow> py_exn + json list" where
  "py_iter v =
     (case v of
        JList xs \<Rightarrow> Inr xs
      | JObj kvs \<Rightarrow> Inr (map (\<lambda>kv. JStr (fst kv)) kvs)
      | JStr s \<Rightarrow> Inr (map (\<lambda>c. JStr [c]) s)
      | _ \<Rightarrow> Inl (not_iterable v))"

text \<open>\<^verbatim>\<open>v == n\<close> for an integer literal \<open>n\<close>; \<^verbatim>\<open>True == 1\<close> and \<^verbatim>\<open>False == 0\<close> in Python.\<close>

definition eq_int :: "json \<Rightarrow> int \<Rightarrow> bool" where
  "eq_int v n = (case v of JInt i \<Rightarrow> i = n | JBool b \<Rightarrow> (if b then 1 else 0) = n | _ \<Rightarrow> False)"

subsection \<open>Exceptions in sequence\<close>

definition bindE :: "'e + 'a \<Rightarrow> ('a \<Rightarrow> 'e + 'b) \<Rightarrow> 'e + 'b" where
  "bindE m f = (case m of Inl e \<Rightarrow> Inl e | Inr x \<Rightarrow> f x)"

text \<open>A loop whose body may raise: the first exception ends it.\<close>

fun foldE :: "('a \<Rightarrow> 's \<Rightarrow> 'e + 's) \<Rightarrow> 'a list \<Rightarrow> 's \<Rightarrow> 'e + 's" where
  "foldE f [] s = Inr s"
| "foldE f (x # xs) s = (case f x s of Inl e \<Rightarrow> Inl e | Inr s' \<Rightarrow> foldE f xs s')"

text \<open>A list comprehension whose element expression may raise.\<close>

fun mapE :: "('a \<Rightarrow> 'e + 'b) \<Rightarrow> 'a list \<Rightarrow> 'e + 'b list" where
  "mapE f [] = Inr []"
| "mapE f (x # xs) =
     (case f x of Inl e \<Rightarrow> Inl e
      | Inr y \<Rightarrow> (case mapE f xs of Inl e \<Rightarrow> Inl e | Inr ys \<Rightarrow> Inr (y # ys)))"

subsection \<open>Dictionaries built by the script\<close>

text \<open>
  The dictionaries the script builds are keyed by parsed values (an activity id, a custom
  field's short name). A Python dictionary keeps the insertion order, compares keys with
  \<^verbatim>\<open>==\<close> (so \<^verbatim>\<open>True\<close> and \<^verbatim>\<open>1\<close> are one key), keeps the first key object when a
  value is overwritten, and refuses lists and dictionaries as keys.
\<close>

type_synonym 'v pydict = "(json \<times> 'v) list"

definition hashable :: "json \<Rightarrow> bool" where
  "hashable k = (case k of JList _ \<Rightarrow> False | JObj _ \<Rightarrow> False | _ \<Rightarrow> True)"

definition key_norm :: "json \<Rightarrow> json" where
  "key_norm k = (case k of JBool b \<Rightarrow> JInt (if b then 1 else 0) | _ \<Rightarrow> k)"

definition key_eq :: "json \<Rightarrow> json \<Rightarrow> bool" where
  "key_eq k k' = (key_norm k = key_norm k')"

fun dict_lookup :: "'v pydict \<Rightarrow> json \<Rightarrow> 'v option" where
  "dict_lookup [] k = None"
| "dict_lookup ((k', v) # d) k = (if key_eq k' k then Some v else dict_lookup d k)"

text \<open>\<^verbatim>\<open>d.get(k, dflt)\<close>\<close>

definition dict_get :: "'v pydict \<Rightarrow> json \<Rightarrow> 'v \<Rightarrow> 'v" where
  "dict_get d k dflt = (case dict_lookup d k of Some v \<Rightarrow> v | None \<Rightarrow> dflt)"

text \<open>\<^verbatim>\<open>d[k] = v\<close> for a hashable key.\<close>

fun dict_store :: "'v pydict \<Rightarrow> json \<Rightarrow> 'v \<Rightarrow> 'v pydict" where
  "dict_store [] k v = [(k, v)]"
| "dict_store ((k', v') # d) k v =
     (if key_eq k' k then (k', v) # d else (k', v') # dict_store d k v)"

text \<open>\<^verbatim>\<open>d[k] = v\<close> for any key.\<close>

definition dict_set :: "'v pydict \<Rightarrow> json \<Rightarrow> 'v \<Rightarrow> py_exn + 'v pydict" where
  "dict_set d k v = (if hashable k then Inr (dict_store d k v) else Inl (unhashable k))"

text \<open>\<^verbatim>\<open>d.update(e)\<close>, also \<^verbatim>\<open>**e\<close> inside a dictionary display.\<close>

definition dict_update :: "'v pydict \<Rightarrow> 'v pydict \<Rightarrow> 'v pydict" where
  "dict_update d e = fold (\<lambda>kv acc. dict_store acc (fst kv) (snd kv)) e d"

section \<open>The remote call wrapper\<close>

text \<open>
  One HTTP request is described by the endpoint, the query parameters \<^verbatim>\<open>wstoken\<close>
  and \<^verbatim>\<open>wsfunction\<close> and the form data. The Moodle server and the network are a
  function from the number of requests already sent and the request to what lines 46 to 48
  produce: an exception, or the parsed payload. The effects of a run are the requests sent
  (one for every attempt), the seconds slept and the lines printed. Every task of the
  worker pool runs against a server of its own in this sense: the answers that its own
  requests receive.
\<close>

record request =
  endpoint :: string
  wstoken :: string
  wsfunction :: string
  body :: "(string \<times> json) list"

datatype attempt = Raised py_exn | Parsed json

type_synonym server = "nat \<Rightarrow> request \<Rightarrow> attempt"

record io =
  sent :: "request list"
  slept :: "rat list"
  printed :: "string list"

definition RETRY_COUNT :: nat where
  "RETRY_COUNT = 3"

definition RETRY_SLEEP_SECONDS :: rat where
  "RETRY_SLEEP_SECONDS = 3 / 2"

text \<open>Lines 49 and 50: the application-level error of a payload.\<close>

definition moodle_exception :: "json \<Rightarrow> py_exn option" where
  "moodle_exception data =
     (case data of
        JObj kvs \<Rightarrow>
          (if py_truthy (obj_get kvs ''exception'' JNull)
           then Some (RuntimeError (''Moodle exception: '' @ py_str (obj_get kvs ''message'' JNull)
                  @ '' | '' @ py_str (obj_get kvs ''errorcode'' JNull)))
           else None)
      | _ \<Rightarrow> None)"

text \<open>Lines 47 to 51, from what the request produced: the exception raised or the data returned.\<close>

definition attempt_result :: "attempt \<Rightarrow> py_exn + json" where
  "attempt_result a =
     (case a of
        Raised e \<Rightarrow> Inl e
      | Parsed data \<Rightarrow> (case moodle_exception data of Some e \<Rightarrow> Inl e | None \<Rightarrow> Inr data))"

text \<open>The body of the \<^verbatim>\<open>try\<close>, lines 46 to 51: one request is sent.\<close>

definition attempt_once :: "server \<Rightarrow> request \<Rightarrow> io \<Rightarrow> (py_exn + json) \<times> io" where
  "attempt_once srv rq st =
     (attempt_result (srv (length (sent st)) rq), st\<lparr>sent := sent st @ [rq]\<rparr>)"

text \<open>The \<^verbatim>\<open>for attempt in range(1, RETRY_COUNT + 1)\<close> loop, lines 44 to 56.\<close>

fun retry_loop :: "server \<Rightarrow> request \<Rightarrow> nat list \<Rightarrow> io \<Rightarrow> (py_exn + json) \<times> io" where
  "retry_loop srv rq [] st = (Inr JNull, st)"
| "retry_loop srv rq (attempt # rest) st =
     (case attempt_once srv rq st of
        (Inr data, st') \<Rightarrow> (Inr data, st')
      | (Inl e, st') \<Rightarrow>
          (if attempt = RETRY_COUNT then (Inl e, st')
           else retry_loop srv rq rest
                  (st'\<lparr>slept := slept st' @ [RETRY_SLEEP_SECONDS * of_nat attempt]\<rparr>)))"

definition call_moodle ::
  "server \<Rightarrow> string \<Rightarrow> string \<Rightarrow> string \<Rightarrow> (string \<times> json) list \<Rightarrow> io \<Rightarrow> (py_exn + json) \<times> io" where
  "call_moodle srv url token func params st =
     retry_loop srv
       \<lparr>endpoint = url @ ''/webservice/rest/server.php'', wstoken = token,
        wsfunction = func, body = params\<rparr>
       [1 ..< RETRY_COUNT + 1] st"

section \<open>Sheet names\<close>

text \<open>
  \<^verbatim>\<open>sanitize_sheet_name\<close>, lines 20 to 32: \<^verbatim>\<open>re.sub\<close> deletes every character
  outside \<^verbatim>\<open>[A-Za-z0-9]\<close>, the slice keeps the first 31 of the rest.
\<close>

definition sanitize_sheet_name :: "string \<Rightarrow> string" where
  "sanitize_sheet_name name = take 31 (filter is_alnum name)"

text \<open>Line 284: \<^verbatim>\<open>sanitize_sheet_name(cshort) or "Course"\<close>, the title given to the sheet.\<close>

definition sheet_title :: "string \<Rightarrow> string" where
  "sheet_title cshort =
     (let cleaned = sanitize_sheet_name cshort in if cleaned \<noteq> [] then cleaned else ''Course'')"

section \<open>Domain queries\<close>

subsection \<open>\<^verbatim>\<open>get_all_courses\<close>, lines 58 to 68\<close>

text \<open>The test of line 65; \<^verbatim>\<open>or\<close> evaluates the full name only when the id does not match.\<close>

definition course_matches :: "strop \<Rightarrow> string list \<Rightarrow> json \<Rightarrow> py_exn + bool" where
  "course_matches lower specific_lower c =
     bindE (py_item c ''id'') (\<lambda>i.
       if py_str i \<in> set specific_lower then Inr True
       else bindE (py_item c ''fullname'') (\<lambda>n.
         case n of
           JStr s \<Rightarrow> Inr (lower s \<in> set specific_lower)
         | _ \<Rightarrow> Inl (no_attribute n ''lower'')))"

fun filter_courses ::
  "strop \<Rightarrow> string list \<Rightarrow> json list \<Rightarrow> json list \<Rightarrow> py_exn + json list" where
  "filter_courses lower specific_lower [] filtered = Inr filtered"
| "filter_courses lower specific_lower (c # cs) filtered =
     bindE (course_matches lower specific_lower c) (\<lambda>m.
       filter_courses lower specific_lower cs (if m then filtered @ [c] else filtered))"

definition get_all_courses ::
  "strop \<Rightarrow> server \<Rightarrow> string \<Rightarrow> string \<Rightarrow> string list option \<Rightarrow> io \<Rightarrow> (py_exn + json) \<times> io" where
  "get_all_courses lower srv url token specific_courses st =
     (case call_moodle srv url token ''core_course_get_courses_by_field'' [] st of
        (Inl e, st') \<Rightarrow> (Inl e, st')
      | (Inr data, st') \<Rightarrow>
          (bindE (py_get data ''courses'' (JList [])) (\<lambda>courses.
             case specific_courses of
               Some (x # xs) \<Rightarrow>
                 bindE (py_iter courses) (\<lambda>cs.
                   bindE (filter_courses lower (map lower (x # xs)) cs []) (\<lambda>filtered.
                     Inr (JList filtered)))
             | _ \<Rightarrow> Inr courses), st'))"

subsection \<open>\<^verbatim>\<open>get_course_users\<close>, lines 70 and 71\<close>

definition get_course_users ::
  "server \<Rightarrow> string \<Rightarrow> string \<Rightarrow> json \<Rightarrow> io \<Rightarrow> (py_exn + json) \<times> io" where
  "get_course_users srv url token course_id st =
     call_moodle srv url token ''core_enrol_get_enrolled_users'' [(''courseid'', course_id)] st"

subsection \<open>\<^verbatim>\<open>get_course_activities\<close>, lines 73 to 81\<close>

datatype meta = Meta (meta_name: json) (meta_modname: json)

text \<open>Lines 78 to 80 for one module \<open>m\<close>.\<close>

definition add_module :: "json \<Rightarrow> meta pydict \<Rightarrow> py_exn + meta pydict" where
  "add_module m activities =
     bindE (py_get m ''uservisible'' (JBool True)) (\<lambda>visible.
       if \<not> py_truthy visible then Inr activities
       else bindE (py_get m ''deletioninprogress'' (JBool False)) (\<lambda>deleting.
         if py_truthy deleting then Inr activities
         else bindE (py_get m ''id'' JNull) (\<lambda>cmid.
           bindE (py_get m ''name'' JNull) (\<lambda>n.
             bindE (py_get m ''modname'' JNull) (\<lambda>mn.
               dict_set activities cmid (Meta n mn))))))"

definition add_section :: "json \<Rightarrow> meta pydict \<Rightarrow> py_exn + meta pydict" where
  "add_section sec activities =
     bindE (py_get sec ''modules'' (JList [])) (\<lambda>ms.
       bindE (py_iter ms) (\<lambda>mods. foldE add_module mods activities))"

definition get_course_activities ::
  "server \<Rightarrow> string \<Rightarrow> string \<Rightarrow> json \<Rightarrow> io \<Rightarrow> (py_exn + meta pydict) \<times> io" where
  "get_course_activities srv url token course_id st =
     (case call_moodle srv url token ''core_course_get_contents'' [(''courseid'', course_id)] st of
        (Inl e, st') \<Rightarrow> (Inl e, st')
      | (Inr sections, st') \<Rightarrow>
          (bindE (py_iter sections) (\<lambda>secs. foldE add_section secs []), st'))"

subsection \<open>\<^verbatim>\<open>get_course_completion\<close>, lines 83 to 92\<close>

text \<open>
  Everything between \<^verbatim>\<open>try\<close> and \<^verbatim>\<open>except Exception: pass\<close> that raises falls
  through to \<^verbatim>\<open>return 0, "N/A"\<close>, and so does a response without
  \<^verbatim>\<open>completionstatus\<close>.
\<close>

definition completion_of_response :: "json \<Rightarrow> int \<times> string" where
  "completion_of_response resp =
     (case resp of
        JObj kvs \<Rightarrow>
          (case map_of kvs ''completionstatus'' of
             None \<Rightarrow> (0, ''N/A'')
           | Some cs \<Rightarrow>
               (case py_get cs ''completed'' JNull of
                  Inl e \<Rightarrow> (0, ''N/A'')
                | Inr completed \<Rightarrow>
                    (if py_truthy completed then 100 else 0,
                     if py_truthy completed then ''Completed'' else ''Incomplete'')))
      | _ \<Rightarrow> (0, ''N/A''))"

definition get_course_completion ::
  "server \<Rightarrow> string \<Rightarrow> string \<Rightarrow> json \<Rightarrow> json \<Rightarrow> io \<Rightarrow> (int \<times> string) \<times> io" where
  "get_course_completion srv url token course_id user_id st =
     (case call_moodle srv url token ''core_completion_get_course_completion_status''
             [(''courseid'', course_id), (''userid'', user_id)] st of
        (Inl e, st') \<Rightarrow> ((0, ''N/A''), st')
      | (Inr resp, st') \<Rightarrow> (completion_of_response resp, st'))"

subsection \<open>\<^verbatim>\<open>get_activity_completion\<close>, lines 94 to 111\<close>

text \<open>Lines 102 to 107.\<close>

definition state_status :: "json \<Rightarrow> string" where
  "state_status state =
     (if eq_int state 1 \<or> eq_int state 2 then ''Completed''
      else if eq_int state 3 then ''Failed''
      else ''Incomplete'')"

text \<open>Lines 100 to 107 for one entry \<open>s\<close> of \<^verbatim>\<open>statuses\<close>: the key and the label.\<close>

definition status_entry :: "json \<Rightarrow> py_exn + json \<times> string" where
  "status_entry s =
     bindE (py_get s ''cmid'' JNull) (\<lambda>cmid.
       bindE (py_get s ''state'' (JInt 0)) (\<lambda>state.
         Inr (cmid, state_status state)))"

text \<open>
  The loop of lines 99 to 108. An exception inside it leaves the loop through
  \<^verbatim>\<open>except Exception: pass\<close>, and \<^verbatim>\<open>out\<close> is returned as it is then.
\<close>

fun statuses_loop :: "json list \<Rightarrow> string pydict \<Rightarrow> string pydict" where
  "statuses_loop [] out = out"
| "statuses_loop (s # ss) out =
     (case bindE (status_entry s) (\<lambda>(cmid, status). dict_set out cmid status) of
        Inl e \<Rightarrow> out
      | Inr out' \<Rightarrow> statuses_loop ss out')"

definition activity_map_of_response :: "json \<Rightarrow> string pydict" where
  "activity_map_of_response data =
     (case bindE (py_get data ''statuses'' (JList [])) py_iter of
        Inl e \<Rightarrow> []
      | Inr ss \<Rightarrow> statuses_loop ss [])"

definition get_activity_completion ::
  "server \<Rightarrow> string \<Rightarrow> string \<Rightarrow> json \<Rightarrow> json \<Rightarrow> io \<Rightarrow> string pydict \<times> io" where
  "get_activity_completion srv url token course_id user_id st =
     (case call_moodle srv url token ''core_completion_get_activities_completion_status''
             [(''courseid'', course_id), (''userid'', user_id)] st of
        (Inl e, st') \<Rightarrow> ([], st')
      | (Inr data, st') \<Rightarrow> (activity_map_of_response data, st'))"

section \<open>The per-course aggregator\<close>

subsection \<open>User fields: lines 113 to 128\<close>

definition role_label :: "json \<Rightarrow> py_exn + json" where
  "role_label r =
     bindE (py_get r ''roleid'' (JStr [])) (\<lambda>rid. py_get r ''name'' (JStr (py_str rid)))"

definition is_str :: "json \<Rightarrow> bool" where
  "is_str v = (case v of JStr _ \<Rightarrow> True | _ \<Rightarrow> False)"

text \<open>\<^verbatim>\<open>sep.join(vs)\<close> raises unless every item is a string.\<close>

definition join_values :: "string \<Rightarrow> json list \<Rightarrow> py_exn + string" where
  "join_values sep vs =
     (if list_all is_str vs then Inr (py_join sep (map py_str vs))
      else Inl (TypeError ''sequence item: expected str instance''))"

definition role_names :: "json \<Rightarrow> string" where
  "role_names user =
     (case bindE (py_get user ''roles'' (JList [])) (\<lambda>rs.
             bindE (py_iter rs) (\<lambda>rl. bindE (mapE role_label rl) (join_values '', ''))) of
        Inl e \<Rightarrow> []
      | Inr s \<Rightarrow> s)"

text \<open>
  \<^verbatim>\<open>datetime.fromtimestamp(ts).strftime("%Y-%m-%d %H:%M:%S")\<close> depends on the local time
  zone and raises on a value that is no timestamp: it is a parameter \<open>tf\<close> of the model.
\<close>

type_synonym timefmt = "json \<Rightarrow> py_exn + string"

definition last_access_str :: "timefmt \<Rightarrow> json \<Rightarrow> py_exn + string" where
  "last_access_str tf user =
     bindE (py_get user ''lastaccess'' JNull) (\<lambda>ts. if py_truthy ts then tf ts else Inr [])"

definition add_custom_field :: "json \<Rightarrow> json pydict \<Rightarrow> py_exn + json pydict" where
  "add_custom_field f d =
     bindE (py_get f ''shortname'' JNull) (\<lambda>sn.
       bindE (if py_truthy sn then Inr sn else py_get f ''name'' JNull) (\<lambda>key.
         bindE (py_get f ''value'' (JStr [])) (\<lambda>v. dict_set d key v)))"

definition flatten_custom_fields :: "json \<Rightarrow> py_exn + json pydict" where
  "flatten_custom_fields user =
     bindE (py_get user ''customfields'' (JList [])) (\<lambda>cf.
       bindE (py_iter (if py_truthy cf then cf else JList [])) (\<lambda>fs.
         foldE add_custom_field fs []))"

subsection \<open>\<^verbatim>\<open>process_one_course\<close>, lines 130 to 213\<close>

type_synonym row = "json pydict"

type_synonym course_result = "row list \<times> json list list \<times> row list \<times> string list"

text \<open>Lines 141 and 142 for one item of \<^verbatim>\<open>activities.items()\<close>.\<close>

definition activity_column :: "strop \<Rightarrow> json \<times> meta \<Rightarrow> py_exn + json \<times> string" where
  "activity_column capitalize item =
     (case meta_modname (snd item) of
        JStr mn \<Rightarrow> Inr (fst item, capitalize mn @ '': '' @ py_str (meta_name (snd item)))
      | v \<Rightarrow> Inl (no_attribute v ''capitalize''))"

text \<open>Line 147. The cross mark is the three bytes of U+274C in UTF-8.\<close>

definition users_failure_message :: "json \<Rightarrow> py_exn \<Rightarrow> string" where
  "users_failure_message cname e =
     ''  '' @ [CHR 0xE2, CHR 0x9D, CHR 0x8C] @ '' Failed to get users for course ''
       @ py_str cname @ '': '' @ exn_str e"

text \<open>Lines 155 to 168: the user id, the last access, the roles and \<^verbatim>\<open>base_user\<close>.\<close>

definition base_user_of :: "timefmt \<Rightarrow> json \<Rightarrow> py_exn + row" where
  "base_user_of tf u =
     (case u of
        JObj kvs \<Rightarrow>
          bindE (last_access_str tf u) (\<lambda>la.
            bindE (flatten_custom_fields u) (\<lambda>custom.
              Inr (dict_update
                [(JStr ''User ID'', obj_get kvs ''id'' JNull),
                 (JStr ''Full Name'', obj_get kvs ''fullname'' (JStr [])),
                 (JStr ''Username'', obj_get kvs ''username'' (JStr [])),
                 (JStr ''Email'', obj_get kvs ''email'' (JStr [])),
                 (JStr ''Department'', obj_get kvs ''department'' (JStr [])),
                 (JStr ''Institution'', obj_get kvs ''institution'' (JStr [])),
                 (JStr ''City'', obj_get kvs ''city'' (JStr [])),
                 (JStr ''Country'', obj_get kvs ''country'' (JStr [])),
                 (JStr ''Last Access'', JStr la),
                 (JStr ''Role(s)'', JStr (role_names u))]
                custom)))
      | _ \<Rightarrow> Inl (no_attribute u ''get''))"

text \<open>Lines 182 and 183: one store per activity column, in the order of the columns.\<close>

definition fill_activities :: "(json \<times> string) list \<Rightarrow> string pydict \<Rightarrow> row \<Rightarrow> row" where
  "fill_activities activity_columns a_map course_row =
     fold (\<lambda>col r. dict_store r (JStr (snd col)) (JStr (dict_get a_map (fst col) ''Incomplete'')))
       activity_columns course_row"

text \<open>Lines 174 to 184.\<close>

definition course_row_of ::
  "json \<Rightarrow> json \<Rightarrow> json \<Rightarrow> row \<Rightarrow> int \<Rightarrow> string \<Rightarrow> (json \<times> string) list \<Rightarrow> string pydict \<Rightarrow> row" where
  "course_row_of cid cname cshort base_user c_pct c_status activity_columns a_map =
     fill_activities activity_columns a_map
       (dict_store
          (dict_store
             (dict_update
                [(JStr ''Course ID'', cid), (JStr ''Course Name'', cname),
                 (JStr ''Course Shortname'', cshort)]
                base_user)
             (JStr ''Course Completion Status'') (JStr c_status))
          (JStr ''Completion %'') (JInt c_pct))"

text \<open>
  The body of the loop over the users, lines 155 to 211. \<^verbatim>\<open>last_access_str(u)\<close> and
  \<^verbatim>\<open>role_names(u)\<close> are functions of \<open>u\<close>: their later calls return what the first
  ones did.
\<close>

definition process_user ::
  "server \<Rightarrow> timefmt \<Rightarrow> string \<Rightarrow> string \<Rightarrow> json \<Rightarrow> json \<Rightarrow> json \<Rightarrow> (json \<times> string) list
     \<Rightarrow> json \<Rightarrow> io \<Rightarrow> (py_exn + row \<times> json list \<times> row) \<times> io" where
  "process_user srv tf url token cid cname cshort activity_columns u st =
     (case u of
        JObj kvs \<Rightarrow>
          (case bindE (base_user_of tf u) (\<lambda>b. bindE (last_access_str tf u) (\<lambda>la. Inr (b, la))) of
             Inl e \<Rightarrow> (Inl e, st)
           | Inr (base_user, la) \<Rightarrow>
               (let uid = obj_get kvs ''id'' JNull;
                    (completion, st1) = get_course_completion srv url token cid uid st;
                    (a_map, st2) = get_activity_completion srv url token cid uid st1;
                    c_pct = fst completion;
                    c_status = snd completion
                in (Inr (course_row_of cid cname cshort base_user c_pct c_status activity_columns a_map,
                         [uid, obj_get kvs ''fullname'' (JStr []), JStr [],
                          obj_get kvs ''email'' (JStr []), cid, cname, JStr la,
                          JStr (role_names u), JInt c_pct, JStr c_status],
                         [(JStr ''User ID'', uid),
                          (JStr ''Full Name'', obj_get kvs ''fullname'' (JStr [])),
                          (JStr ''Username'', obj_get kvs ''username'' (JStr [])),
                          (JStr ''Email'', obj_get kvs ''email'' (JStr [])),
                          (JStr ''Course ID'', cid),
                          (JStr ''Course Name'', cname),
                          (JStr ''Course Shortname'', cshort),
                          (JStr ''Role(s)'', JStr (role_names u)),
                          (JStr ''Last Access'', JStr la)]),
                    st2)))
      | _ \<Rightarrow> (Inl (no_attribute u ''get''), st))"

text \<open>The loop of line 154, with the rows appended so far.\<close>

fun users_loop ::
  "(json \<Rightarrow> io \<Rightarrow> (py_exn + row \<times> json list \<times> row) \<times> io) \<Rightarrow> json list
     \<Rightarrow> row list \<times> json list list \<times> row list \<Rightarrow> io
     \<Rightarrow> (py_exn + row list \<times> json list list \<times> row list) \<times> io" where
  "users_loop step [] acc st = (Inr acc, st)"
| "users_loop step (u # us) acc st =
     (case step u st of
        (Inl e, st') \<Rightarrow> (Inl e, st')
      | (Inr (course_row, consolidated_row, enrollment_row), st') \<Rightarrow>
          users_loop step us
            (fst acc @ [course_row], fst (snd acc) @ [consolidated_row],
             snd (snd acc) @ [enrollment_row]) st')"

text \<open>Line 136.\<close>

definition processing_line :: "json \<Rightarrow> json \<Rightarrow> string" where
  "processing_line cname cid =
     ''Processing course: '' @ py_str cname @ '' (ID='' @ py_str cid @ '')''"

definition say :: "string \<Rightarrow> io \<Rightarrow> io" where
  "say line st = st\<lparr>printed := printed st @ [line]\<rparr>"

text \<open>Lines 138 to 142: the activities of the course and their columns.\<close>

definition course_activity_columns ::
  "strop \<Rightarrow> server \<Rightarrow> string \<Rightarrow> string \<Rightarrow> json \<Rightarrow> io \<Rightarrow> (py_exn + (json \<times> string) list) \<times> io" where
  "course_activity_columns capitalize srv url token cid st =
     (case get_course_activities srv url token cid st of
        (Inl e, st1) \<Rightarrow> (Inl e, st1)
      | (Inr activities, st1) \<Rightarrow> (mapE (activity_column capitalize) activities, st1))"

definition process_one_course ::
  "strop \<Rightarrow> server \<Rightarrow> timefmt \<Rightarrow> json \<Rightarrow> string \<Rightarrow> string \<Rightarrow> io \<Rightarrow> (py_exn + course_result) \<times> io" where
  "process_one_course capitalize srv tf course url token st =
     (case course of
        JObj ckvs \<Rightarrow>
          (let cid = obj_get ckvs ''id'' JNull;
               cname = obj_get ckvs ''fullname'' (JStr []);
               cshort = obj_get ckvs ''shortname'' (JStr [])
           in case course_activity_columns capitalize srv url token cid (say (processing_line cname cid) st) of
                (Inl e, st1) \<Rightarrow> (Inl e, st1)
              | (Inr activity_columns, st1) \<Rightarrow>
                  (case get_course_users srv url token cid st1 of
                     (Inl e, st2) \<Rightarrow>
                       (Inr ([], [], [], map snd activity_columns),
                        say (users_failure_message cname e) st2)
                   | (Inr users, st2) \<Rightarrow>
                       (case py_iter users of
                          Inl e \<Rightarrow> (Inl e, st2)
                        | Inr us \<Rightarrow>
                            (case users_loop
                                    (process_user srv tf url token cid cname cshort activity_columns)
                                    us ([], [], []) st2 of
                               (Inl e, st3) \<Rightarrow> (Inl e, st3)
                             | (Inr (per_course_rows, consolidated_rows, enrollment_rows), st3) \<Rightarrow>
                                 (Inr (per_course_rows, consolidated_rows, enrollment_rows,
                                       map snd activity_columns), st3)))))
      | _ \<Rightarrow> (Inl (no_attribute course ''get''), st))"

section \<open>The orchestrator: collecting the results and writing the per-course sheets\<close>

text \<open>
  Lines 251 to 266. The worker pool hands the courses back in the order in which their
  tasks complete; \<open>completed\<close> is that sequence, each course with what
  \<^verbatim>\<open>fut.result()\<close> returns or raises. The lines printed by the orchestrator are
  collected beside the three accumulators.
\<close>

type_synonym collected = "(json \<times> row list \<times> string list) list \<times> json list list \<times> row list"

definition done_line :: "json \<Rightarrow> nat \<Rightarrow> string" where
  "done_line cname n =
     ''  '' @ [CHR 0xE2, CHR 0x9C, CHR 0x85] @ '' Done: '' @ py_str cname
       @ '' ('' @ nat_str n @ '' user rows)''"

definition error_line :: "json \<Rightarrow> py_exn \<Rightarrow> string" where
  "error_line cname e =
     ''  '' @ [CHR 0xE2, CHR 0x9D, CHR 0x8C] @ '' Error processing '' @ py_str cname
       @ '': '' @ exn_str e"

definition collect_step ::
  "json \<times> (py_exn + course_result) \<Rightarrow> collected \<times> string list \<Rightarrow> py_exn + collected \<times> string list" where
  "collect_step fut acc =
     (case fst fut of
        JObj ckvs \<Rightarrow>
          (let cname = obj_get ckvs ''fullname'' (JStr []);
               cshort = obj_get ckvs ''shortname''
                          (JStr (''course_'' @ py_str (obj_get ckvs ''id'' JNull)));
               per_course_results = fst (fst acc);
               consolidated_all = fst (snd (fst acc));
               enrollment_all = snd (snd (fst acc))
           in case snd fut of
                Inr (per_course_rows, consolidated_rows, enrollment_rows, act_cols) \<Rightarrow>
                  Inr ((per_course_results @ [(cshort, per_course_rows, act_cols)],
                        consolidated_all @ consolidated_rows,
                        enrollment_all @ enrollment_rows),
                       snd acc @ [done_line cname (length per_course_rows)])
              | Inl e \<Rightarrow> Inr (fst acc, snd acc @ [error_line cname e]))
      | c \<Rightarrow> Inl (no_attribute c ''get''))"

definition collect ::
  "(json \<times> (py_exn + course_result)) list \<Rightarrow> py_exn + collected \<times> string list" where
  "collect completed = foldE collect_step completed (([], [], []), [])"

text \<open>
  Lines 283 to 295. A sheet is the title given to \<^verbatim>\<open>create_sheet\<close>, the header row
  and the data rows appended to it. \<^verbatim>\<open>sorted\<close> is stable, and so is \<open>sort_key\<close>.
\<close>

record sheet =
  title :: string
  headers :: "string list"
  data_rows :: "json list list"

definition base_headers :: "string list" where
  "base_headers =
     [''Course ID'', ''Course Name'', ''Course Shortname'',
      ''User ID'', ''Full Name'', ''Username'', ''Email'',
      ''Department'', ''Institution'', ''City'', ''Country'', ''Last Access'', ''Role(s)'']"

definition trailing_headers :: "string list" where
  "trailing_headers = [''Completion %'', ''Course Completion Status'']"

text \<open>The key of line 283: \<^verbatim>\<open>x[0].lower()\<close>.\<close>

definition lower_key :: "strop \<Rightarrow> json \<times> row list \<times> string list \<Rightarrow> py_exn + string" where
  "lower_key lower x =
     (case fst x of JStr s \<Rightarrow> Inr (lower s) | v \<Rightarrow> Inl (no_attribute v ''lower''))"

text \<open>Lines 284 to 294 for one course.\<close>

definition per_course_sheet :: "json \<times> row list \<times> string list \<Rightarrow> py_exn + sheet" where
  "per_course_sheet x =
     (case fst x of
        JStr cshort \<Rightarrow>
          (let hs = base_headers @ snd (snd x) @ trailing_headers
           in Inr \<lparr>title = sheet_title cshort, headers = hs,
                   data_rows = map (\<lambda>r. map (\<lambda>h. dict_get r (JStr h) (JStr [])) hs) (fst (snd x))\<rparr>)
      | v \<Rightarrow> Inl (TypeError ''expected string or bytes-like object''))"

definition per_course_sheets ::
  "strop \<Rightarrow> (json \<times> row list \<times> string list) list \<Rightarrow> py_exn + sheet list" where
  "per_course_sheets lower per_course_results =
     bindE (mapE (lower_key lower) per_course_results) (\<lambda>keys.
       mapE per_course_sheet (map snd (sort_key fst (zip keys per_course_results))))"

section \<open>Definitions used to state the properties\<close>

text \<open>The characters A to Z, a to z and 0 to 9, written out.\<close>

definition alnum_chars :: string where
  "alnum_chars = ''ABCDEFGHIJKLMNOPQRSTUVWXYZabcdefghijklmnopqrstuvwxyz0123456789''"

subsection \<open>The case mappings on ASCII text\<close>

text \<open>
  What \<^verbatim>\<open>str.lower\<close> and \<^verbatim>\<open>str.capitalize\<close> do to a string of ASCII characters.
  They stand for the two parameters in the examples, whose strings are ASCII.
\<close>

definition ascii_lower_char :: "char \<Rightarrow> char" where
  "ascii_lower_char c = (if is_upper c then char_of ((of_char c :: nat) + 32) else c)"

definition ascii_upper_char :: "char \<Rightarrow> char" where
  "ascii_upper_char c = (if is_lower c then char_of ((of_char c :: nat) - 32) else c)"

definition ascii_lower :: "string \<Rightarrow> string" where
  "ascii_lower s = map ascii_lower_char s"

fun ascii_capitalize :: "string \<Rightarrow> string" where
  "ascii_capitalize [] = []"
| "ascii_capitalize (c # cs) = ascii_upper_char c # map ascii_lower_char cs"

subsection \<open>Example servers\<close>

text \<open>A server whose first answer is a transport failure, whose second is a Moodle error
  payload and whose later answers are a list of one user.\<close>

definition flaky :: server where
  "flaky n rq =
     (if n = 0 then Raised (RequestFailure ''Read timed out'')
      else if n = 1 then Parsed (JObj [(''exception'', JStr ''moodle_exception''),
                                       (''message'', JStr ''busy''), (''errorcode'', JStr ''dbbusy'')])
      else Parsed (JList [JObj [(''id'', JInt 4)]]))"

text \<open>A server that cannot be reached.\<close>

definition down :: server where
  "down n rq =
     Raised (RequestFailure (if n = 0 then ''first failure'' else if n = 1 then ''second failure''
                             else ''third failure''))"

subsection \<open>An example site\<close>

text \<open>
  Two courses with one quiz each and the users Ann and Bob. The enrolled users of the
  second course cannot be fetched, and Bob's activity completion cannot be fetched.
\<close>

definition algebra :: json where
  "algebra = JObj [(''id'', JInt 1), (''fullname'', JStr ''Algebra I''), (''shortname'', JStr ''ALG-1''),
                   (''categoryid'', JInt 3)]"

definition biology :: json where
  "biology = JObj [(''id'', JInt 2), (''fullname'', JStr ''Biology''), (''shortname'', JStr ''bio 2''),
                   (''categoryid'', JInt 3)]"

definition ann :: json where
  "ann = JObj [(''id'', JInt 10), (''fullname'', JStr ''Ann Lee''), (''username'', JStr ''ann''),
               (''email'', JStr ''ann@example.org''),
               (''roles'', JList [JObj [(''roleid'', JInt 5), (''name'', JStr ''Student'')]])]"

definition bob :: json where
  "bob = JObj [(''id'', JInt 11), (''fullname'', JStr ''Bob Ray''), (''username'', JStr ''bob''),
               (''email'', JStr ''bob@example.org''),
               (''roles'', JList [JObj [(''roleid'', JInt 5), (''name'', JStr ''Student'')]]),
               (''customfields'', JList [JObj [(''shortname'', JStr ''team''), (''value'', JStr ''blue'')]])]"

definition campus :: server where
  "campus n rq =
     (if wsfunction rq = ''core_course_get_courses_by_field''
        then Parsed (JObj [(''courses'', JList [algebra, biology])])
      else if wsfunction rq = ''core_course_get_contents''
        then Parsed (JList [JObj [(''id'', JInt 1), (''modules'',
               JList [JObj [(''id'', JInt 101), (''name'', JStr ''Final''), (''modname'', JStr ''quiz'')]])]])
      else if wsfunction rq = ''core_enrol_get_enrolled_users''
        then (if map_of (body rq) ''courseid'' = Some (JInt 2)
              then Raised (RequestFailure ''503 Server Error'')
              else Parsed (JList [ann, bob]))
      else if wsfunction rq = ''core_completion_get_course_completion_status''
        then Parsed (JObj [(''completionstatus'',
               JObj [(''completed'', JBool (map_of (body rq) ''userid'' = Some (JInt 10)))])])
      else if map_of (body rq) ''userid'' = Some (JInt 11)
        then Raised (RequestFailure ''Read timed out'')
        else Parsed (JObj [(''statuses'', JList [JObj [(''cmid'', JInt 101), (''state'', JInt 1)]])]))"

text \<open>A clock for the examples; no user of the example site has a last access.\<close>

definition no_clock :: timefmt where
  "no_clock ts = Inr ''2024-01-01 00:00:00''"

definition fresh :: io where
  "fresh = \<lparr>sent = [], slept = [], printed = []\<rparr>"

subsection \<open>Entries of a completion response\<close>

text \<open>
  The key and the label of an entry of \<^verbatim>\<open>statuses\<close>, and the entries the loop of
  lines 99 to 108 runs through without an exception: dictionaries whose \<^verbatim>\<open>cmid\<close> can be
  a dictionary key.
\<close>

definition entry_cmid :: "json \<Rightarrow> json" where
  "entry_cmid s = (case s of JObj kvs \<Rightarrow> obj_get kvs ''cmid'' JNull | _ \<Rightarrow> JNull)"

definition entry_label :: "json \<Rightarrow> string" where
  "entry_label s = (case s of JObj kvs \<Rightarrow> state_status (obj_get kvs ''state'' (JInt 0)) | _ \<Rightarrow> [])"

definition well_formed_entry :: "json \<Rightarrow> bool" where
  "well_formed_entry s = (case s of JObj kvs \<Rightarrow> hashable (obj_get kvs ''cmid'' JNull) | _ \<Rightarrow> False)"

definition status_labels :: "string set" where
  "status_labels = {''Completed'', ''Failed'', ''Incomplete''}"

subsection \<open>The course filter in the words of the specification\<close>

text \<open>
  A course of the list is well formed when it is an object with an integer \<^verbatim>\<open>id\<close> and a
  string \<^verbatim>\<open>fullname\<close>. The filter keeps the courses whose id, as a string, equals an
  entry, or whose full name equals an entry when the case of the letters is ignored: when
  \<^verbatim>\<open>str.lower\<close> gives the same for both.
\<close>

definition well_formed_course :: "json \<Rightarrow> bool" where
  "well_formed_course c =
     (case c of
        JObj kvs \<Rightarrow>
          (case map_of kvs ''id'' of
             Some (JInt i) \<Rightarrow> (case map_of kvs ''fullname'' of Some (JStr s) \<Rightarrow> True | _ \<Rightarrow> False)
           | _ \<Rightarrow> False)
      | _ \<Rightarrow> False)"

definition course_id_str :: "json \<Rightarrow> string" where
  "course_id_str c = (case c of JObj kvs \<Rightarrow> py_str (obj_get kvs ''id'' JNull) | _ \<Rightarrow> [])"

definition course_fullname :: "json \<Rightarrow> string" where
  "course_fullname c = (case c of JObj kvs \<Rightarrow> py_str (obj_get kvs ''fullname'' JNull) | _ \<Rightarrow> [])"

definition same_ignoring_case :: "strop \<Rightarrow> string \<Rightarrow> string \<Rightarrow> bool" where
  "same_ignoring_case lower a b = (lower a = lower b)"

definition spec_course_filter :: "strop \<Rightarrow> string list \<Rightarrow> json list \<Rightarrow> json list" where
  "spec_course_filter lower entries cs =
     filter (\<lambda>c. list_ex (\<lambda>e. course_id_str c = e
                             \<or> same_ignoring_case lower (course_fullname c) e) entries) cs"

text \<open>
  What the course filter needs of \<^verbatim>\<open>str.lower\<close>: a decimal numeral is the lower-case
  form of itself and of no other string. The case mappings of Unicode change cased
  letters only, and into letters.
\<close>

definition keeps_numerals :: "strop \<Rightarrow> bool" where
  "keeps_numerals lower = (\<forall>e i. (lower e = int_str i) = (e = int_str i))"

text \<open>The characters of a decimal numeral: what \<^verbatim>\<open>str\<close> of an integer is made of.\<close>

definition digit_or_minus :: "char \<Rightarrow> bool" where
  "digit_or_minus c = (is_digit c \<or> c = CHR ''-'')"

subsection \<open>Well-formed users\<close>

text \<open>
  The users payload is well formed when the loop of line 154 can run over it and the
  profile of every user (lines 155 to 168) is assembled without an exception: every user
  is a dictionary whose last access, when present, is a timestamp and whose custom fields
  are a list of dictionaries with hashable names.
\<close>

definition users_well_formed :: "timefmt \<Rightarrow> json \<Rightarrow> bool" where
  "users_well_formed tf users =
     (case py_iter users of
        Inl e \<Rightarrow> False
      | Inr us \<Rightarrow> list_all (\<lambda>u. \<not> isl (base_user_of tf u)) us)"

subsection \<open>The orchestrator in closed form\<close>

text \<open>The short name under which the orchestrator files a course, line 258.\<close>

definition course_short :: "json \<Rightarrow> json" where
  "course_short c =
     (case c of
        JObj ckvs \<Rightarrow> obj_get ckvs ''shortname'' (JStr (''course_'' @ py_str (obj_get ckvs ''id'' JNull)))
      | _ \<Rightarrow> JNull)"

text \<open>A course the orchestrator can file: a dictionary whose short name, when present,
  is a string.\<close>

definition sheet_course_ok :: "json \<Rightarrow> bool" where
  "sheet_course_ok c = (case c of JObj ckvs \<Rightarrow> is_str (course_short c) | _ \<Rightarrow> False)"

text \<open>The entries of \<^verbatim>\<open>per_course_results\<close>: one for every task that returned.\<close>

definition succeeded ::
  "(json \<times> (py_exn + course_result)) list \<Rightarrow> (json \<times> row list \<times> string list) list" where
  "succeeded completed =
     concat (map (\<lambda>fut. case snd fut of
                           Inr r \<Rightarrow> [(course_short (fst fut), fst r, snd (snd (snd r)))]
                         | Inl e \<Rightarrow> []) completed)"

text \<open>The sheet of one entry of \<^verbatim>\<open>per_course_results\<close>.\<close>

definition sheet_of :: "json \<times> row list \<times> string list \<Rightarrow> sheet" where
  "sheet_of x =
     \<lparr>title = sheet_title (py_str (fst x)),
      headers = base_headers @ snd (snd x) @ trailing_headers,
      data_rows = map (\<lambda>r. map (\<lambda>h. dict_get r (JStr h) (JStr []))
                                (base_headers @ snd (snd x) @ trailing_headers)) (fst (snd x))\<rparr>"

subsection \<open>A course with two activities of one name\<close>

text \<open>
  A site whose course has two quizzes, both named Final, and one user, Ann, whose
  completion statuses mention the second quiz only.
\<close>

definition twins :: server where
  "twins n rq =
     (if wsfunction rq = ''core_course_get_contents''
        then Parsed (JList [JObj [(''id'', JInt 1), (''modules'',
               JList [JObj [(''id'', JInt 101), (''name'', JStr ''Final''), (''modname'', JStr ''quiz'')],
                      JObj [(''id'', JInt 102), (''name'', JStr ''Final''), (''modname'', JStr ''quiz'')]])]])
      else if wsfunction rq = ''core_enrol_get_enrolled_users''
        then Parsed (JList [ann])
      else if wsfunction rq = ''core_completion_get_course_completion_status''
        then Parsed (JObj [(''completionstatus'', JObj [(''completed'', JBool False)])])
      else Parsed (JObj [(''statuses'', JList [JObj [(''cmid'', JInt 102), (''state'', JInt 1)]])]))"

section \<open>Properties\<close>

subsection \<open>Sheet names\<close>

lemma is_alnum_iff: "is_alnum c = (c \<in> set alnum_chars)"
  by (cases c) (simp add: is_alnum_def is_upper_def is_lower_def is_digit_def alnum_chars_def)

text \<open>
  C9. For every input string, \<^verbatim>\<open>sanitize_sheet_name\<close> returns a string made only of
  the characters A to Z, a to z and 0 to 9, of length at most 31, whose characters are
  characters of the input in the input's order; the title given to the sheet is the
  sanitized name, and \<^verbatim>\<open>Course\<close> when the sanitized name is empty.
\<close>

theorem sanitize_sheet_name_alnum_31:
  "set (sanitize_sheet_name name) \<subseteq> set alnum_chars
   \<and> length (sanitize_sheet_name name) \<le> 31
   \<and> subseq (sanitize_sheet_name name) name
   \<and> sheet_title name
       = (if sanitize_sheet_name name = [] then ''Course'' else sanitize_sheet_name name)"
proof -
  have "set (sanitize_sheet_name name) \<subseteq> set (filter is_alnum name)"
    unfolding sanitize_sheet_name_def by (rule set_take_subset)
  then have chars: "set (sanitize_sheet_name name) \<subseteq> set alnum_chars"
    by (auto simp: is_alnum_iff)
  have len: "length (sanitize_sheet_name name) \<le> 31"
    by (simp add: sanitize_sheet_name_def)
  have "subseq (take 31 (filter is_alnum name)) (filter is_alnum name)"
    by (metis append_take_drop_id prefix_def prefix_imp_subseq)
  then have order: "subseq (sanitize_sheet_name name) name"
    unfolding sanitize_sheet_name_def
    using subseq_filter_left subseq_order.order_trans by blast
  have fallback: "sheet_title name
      = (if sanitize_sheet_name name = [] then ''Course'' else sanitize_sheet_name name)"
    by (simp add: sheet_title_def Let_def)
  from chars len order fallback show ?thesis by blast
qed

theorem sanitize_sheet_name_alnum_31_witness:
  "sanitize_sheet_name ''Intro to (Python) 2024 - section_A [evening]!''
     = ''IntrotoPython2024sectionAevenin''
   \<and> length (sanitize_sheet_name ''Intro to (Python) 2024 - section_A [evening]!'') \<le> 31
   \<and> sanitize_sheet_name ''-- ()'' = []
   \<and> sheet_title ''-- ()'' = ''Course''"
  using sanitize_sheet_name_alnum_31 [of "''Intro to (Python) 2024 - section_A [evening]!''"]
    sanitize_sheet_name_alnum_31 [of "''-- ()''"]
  by (simp add: sanitize_sheet_name_def is_alnum_def is_upper_def is_lower_def is_digit_def)

subsection \<open>The remote call wrapper\<close>

lemma retry_range: "[1 ..< RETRY_COUNT + 1] = [1, 2, 3]"
  by (simp add: RETRY_COUNT_def upt_rec)

lemma attempt_result_Inl_iff:
  "attempt_result a = Inl e \<longleftrightarrow>
     a = Raised e \<or>
     (\<exists>kvs. a = Parsed (JObj kvs) \<and> py_truthy (obj_get kvs ''exception'' JNull)
        \<and> e = RuntimeError (''Moodle exception: '' @ py_str (obj_get kvs ''message'' JNull)
                @ '' | '' @ py_str (obj_get kvs ''errorcode'' JNull)))"
  by (auto simp: attempt_result_def moodle_exception_def
      split: attempt.splits json.splits option.splits if_splits)

text \<open>The three attempts, written out: the outcome of \<^verbatim>\<open>call_moodle\<close> from the outcomes
  of the requests it sends.\<close>

lemma call_moodle_cases:
  fixes srv url token func params st
  defines "rq \<equiv> \<lparr>endpoint = url @ ''/webservice/rest/server.php'', wstoken = token,
                  wsfunction = func, body = params\<rparr>"
  defines "r \<equiv> \<lambda>k. attempt_result (srv (length (sent st) + k) rq)"
  shows "call_moodle srv url token func params st =
     (case r 0 of
        Inr d \<Rightarrow> (Inr d, st\<lparr>sent := sent st @ [rq]\<rparr>)
      | Inl e1 \<Rightarrow>
         (case r 1 of
            Inr d \<Rightarrow> (Inr d, st\<lparr>sent := sent st @ [rq, rq], slept := slept st @ [3 / 2]\<rparr>)
          | Inl e2 \<Rightarrow>
             (case r 2 of
                Inr d \<Rightarrow> (Inr d, st\<lparr>sent := sent st @ [rq, rq, rq],
                                       slept := slept st @ [3 / 2, 3]\<rparr>)
              | Inl e3 \<Rightarrow> (Inl e3, st\<lparr>sent := sent st @ [rq, rq, rq],
                                        slept := slept st @ [3 / 2, 3]\<rparr>))))"
  unfolding call_moodle_def retry_range rq_def[symmetric]
  by (simp add: attempt_once_def r_def RETRY_COUNT_def RETRY_SLEEP_SECONDS_def split: sum.splits)

text \<open>
  C5, as the code has it. An attempt fails when the request, the status check or the JSON
  parsing raises, or when the payload is an object whose \<^verbatim>\<open>exception\<close> field is truthy
  (then a \<^verbatim>\<open>RuntimeError\<close> is raised). \<^verbatim>\<open>call_moodle\<close> sends at most 3 requests. A
  successful attempt returns its data at once; after a failed first or second attempt it
  sleeps 1.5 times the attempt index and tries again; after a failed third attempt it
  raises the failure of the third attempt.
\<close>

theorem call_moodle_retries:
  fixes srv url token func params st
  defines "rq \<equiv> \<lparr>endpoint = url @ ''/webservice/rest/server.php'', wstoken = token,
                  wsfunction = func, body = params\<rparr>"
  defines "r \<equiv> \<lambda>k. attempt_result (srv (length (sent st) + k) rq)"
  defines "res \<equiv> call_moodle srv url token func params st"
  shows "(\<forall>a e. attempt_result a = Inl e \<longleftrightarrow>
            a = Raised e \<or>
            (\<exists>kvs. a = Parsed (JObj kvs) \<and> py_truthy (obj_get kvs ''exception'' JNull)
               \<and> e = RuntimeError (''Moodle exception: '' @ py_str (obj_get kvs ''message'' JNull)
                       @ '' | '' @ py_str (obj_get kvs ''errorcode'' JNull))))
     \<and> length (sent (snd res)) \<le> length (sent st) + 3
     \<and> (\<forall>d. r 0 = Inr d \<longrightarrow> res = (Inr d, st\<lparr>sent := sent st @ [rq]\<rparr>))
     \<and> (\<forall>e1 d. r 0 = Inl e1 \<and> r 1 = Inr d \<longrightarrow>
            res = (Inr d, st\<lparr>sent := sent st @ [rq, rq], slept := slept st @ [3 / 2 * 1]\<rparr>))
     \<and> (\<forall>e1 e2 d. r 0 = Inl e1 \<and> r 1 = Inl e2 \<and> r 2 = Inr d \<longrightarrow>
            res = (Inr d, st\<lparr>sent := sent st @ [rq, rq, rq],
                            slept := slept st @ [3 / 2 * 1, 3 / 2 * 2]\<rparr>))
     \<and> (\<forall>e1 e2 e3. r 0 = Inl e1 \<and> r 1 = Inl e2 \<and> r 2 = Inl e3 \<longrightarrow>
            res = (Inl e3, st\<lparr>sent := sent st @ [rq, rq, rq],
                             slept := slept st @ [3 / 2 * 1, 3 / 2 * 2]\<rparr>))"
proof -
  have c: "res =
     (case r 0 of
        Inr d \<Rightarrow> (Inr d, st\<lparr>sent := sent st @ [rq]\<rparr>)
      | Inl e1 \<Rightarrow>
         (case r 1 of
            Inr d \<Rightarrow> (Inr d, st\<lparr>sent := sent st @ [rq, rq], slept := slept st @ [3 / 2]\<rparr>)
          | Inl e2 \<Rightarrow>
             (case r 2 of
                Inr d \<Rightarrow> (Inr d, st\<lparr>sent := sent st @ [rq, rq, rq],
                                       slept := slept st @ [3 / 2, 3]\<rparr>)
              | Inl e3 \<Rightarrow> (Inl e3, st\<lparr>sent := sent st @ [rq, rq, rq],
                                        slept := slept st @ [3 / 2, 3]\<rparr>))))"
    unfolding res_def r_def rq_def by (simp add: call_moodle_cases)
  have "length (sent (snd res)) \<le> length (sent st) + 3"
    unfolding c by (simp split: sum.splits)
  moreover have "\<And>d. r 0 = Inr d \<Longrightarrow> res = (Inr d, st\<lparr>sent := sent st @ [rq]\<rparr>)"
    unfolding c by simp
  moreover have "\<And>e1 d. r 0 = Inl e1 \<and> r 1 = Inr d \<Longrightarrow>
      res = (Inr d, st\<lparr>sent := sent st @ [rq, rq], slept := slept st @ [3 / 2 * 1]\<rparr>)"
    unfolding c by simp
  moreover have "\<And>e1 e2 d. r 0 = Inl e1 \<and> r 1 = Inl e2 \<and> r 2 = Inr d \<Longrightarrow>
      res = (Inr d, st\<lparr>sent := sent st @ [rq, rq, rq],
                      slept := slept st @ [3 / 2 * 1, 3 / 2 * 2]\<rparr>)"
    unfolding c by simp
  moreover have "\<And>e1 e2 e3. r 0 = Inl e1 \<and> r 1 = Inl e2 \<and> r 2 = Inl e3 \<Longrightarrow>
      res = (Inl e3, st\<lparr>sent := sent st @ [rq, rq, rq],
                       slept := slept st @ [3 / 2 * 1, 3 / 2 * 2]\<rparr>)"
    unfolding c by simp
  ultimately show ?thesis
    using attempt_result_Inl_iff by blast
qed

theorem call_moodle_retries_witness:
  "call_moodle flaky ''https://lms.example.org'' ''secret'' ''core_enrol_get_enrolled_users''
      [(''courseid'', JInt 7)] \<lparr>sent = [], slept = [], printed = []\<rparr>
    = (Inr (JList [JObj [(''id'', JInt 4)]]),
       \<lparr>sent = replicate 3 \<lparr>endpoint = ''https://lms.example.org/webservice/rest/server.php'',
            wstoken = ''secret'', wsfunction = ''core_enrol_get_enrolled_users'',
            body = [(''courseid'', JInt 7)]\<rparr>,
        slept = [3 / 2, 3], printed = []\<rparr>)
   \<and> call_moodle down ''https://lms.example.org'' ''secret'' ''core_enrol_get_enrolled_users''
      [(''courseid'', JInt 7)] \<lparr>sent = [], slept = [], printed = []\<rparr>
    = (Inl (RequestFailure ''third failure''),
       \<lparr>sent = replicate 3 \<lparr>endpoint = ''https://lms.example.org/webservice/rest/server.php'',
            wstoken = ''secret'', wsfunction = ''core_enrol_get_enrolled_users'',
            body = [(''courseid'', JInt 7)]\<rparr>,
        slept = [3 / 2, 3], printed = []\<rparr>)"
  using
    call_moodle_retries [of flaky "''https://lms.example.org''" "''secret''"
      "''core_enrol_get_enrolled_users''" "[(''courseid'', JInt 7)]"
      "\<lparr>sent = [], slept = [], printed = []\<rparr>", THEN conjunct2]
    call_moodle_retries [of down "''https://lms.example.org''" "''secret''"
      "''core_enrol_get_enrolled_users''" "[(''courseid'', JInt 7)]"
      "\<lparr>sent = [], slept = [], printed = []\<rparr>", THEN conjunct2]
  by (simp add: flaky_def down_def attempt_result_def moodle_exception_def obj_get_def py_str_def
        numeral_3_eq_3)

text \<open>
  A payload that contains an \<^verbatim>\<open>exception\<close> field whose value is \<^verbatim>\<open>null\<close> is not a
  failure: the first attempt returns it as data, and nothing is retried.
\<close>

theorem call_moodle_exception_field_counterexample:
  "call_moodle (\<lambda>n rq. Parsed (JObj [(''exception'', JNull), (''courses'', JList [])]))
      ''https://lms.example.org'' ''secret'' ''core_course_get_courses_by_field'' []
      \<lparr>sent = [], slept = [], printed = []\<rparr>
    = (Inr (JObj [(''exception'', JNull), (''courses'', JList [])]),
       \<lparr>sent = [\<lparr>endpoint = ''https://lms.example.org/webservice/rest/server.php'',
            wstoken = ''secret'', wsfunction = ''core_course_get_courses_by_field'', body = []\<rparr>],
        slept = [], printed = []\<rparr>)"
  by (simp add: call_moodle_cases attempt_result_def moodle_exception_def obj_get_def)

subsection \<open>Course completion of a user\<close>

text \<open>
  C2. \<^verbatim>\<open>get_course_completion\<close> returns a pair and a state for every input, so no
  failure leaves it. When the underlying call raises, the pair is \<^verbatim>\<open>(0, "N/A")\<close>; when
  the response carries a completion status whose \<^verbatim>\<open>completed\<close> is false or missing, the
  pair is \<^verbatim>\<open>(0, "Incomplete")\<close>, and \<^verbatim>\<open>(100, "Completed")\<close> when it is true; the first
  two pairs differ.
\<close>

theorem get_course_completion_fallback:
  fixes srv url token course_id user_id st
  defines "call \<equiv> call_moodle srv url token ''core_completion_get_course_completion_status''
                     [(''courseid'', course_id), (''userid'', user_id)] st"
  defines "res \<equiv> get_course_completion srv url token course_id user_id st"
  shows "(\<forall>e st'. call = (Inl e, st') \<longrightarrow> res = ((0, ''N/A''), st'))
     \<and> (\<forall>resp cs st'. call = (Inr (JObj resp), st')
            \<and> map_of resp ''completionstatus'' = Some (JObj cs)
            \<and> \<not> py_truthy (obj_get cs ''completed'' JNull)
          \<longrightarrow> res = ((0, ''Incomplete''), st'))
     \<and> (\<forall>resp cs st'. call = (Inr (JObj resp), st')
            \<and> map_of resp ''completionstatus'' = Some (JObj cs)
            \<and> py_truthy (obj_get cs ''completed'' JNull)
          \<longrightarrow> res = ((100, ''Completed''), st'))
     \<and> (0 :: int, ''N/A'') \<noteq> (0, ''Incomplete'')"
  unfolding res_def call_def get_course_completion_def
  by (auto simp: completion_of_response_def py_get_def)

theorem get_course_completion_fallback_witness:
  "get_course_completion down ''https://lms.example.org'' ''secret'' (JInt 1) (JInt 11) fresh
     = ((0, ''N/A''),
        fresh\<lparr>sent := replicate 3 \<lparr>endpoint = ''https://lms.example.org/webservice/rest/server.php'',
                  wstoken = ''secret'', wsfunction = ''core_completion_get_course_completion_status'',
                  body = [(''courseid'', JInt 1), (''userid'', JInt 11)]\<rparr>,
              slept := [3 / 2, 3]\<rparr>)
   \<and> fst (get_course_completion campus ''https://lms.example.org'' ''secret'' (JInt 1) (JInt 11) fresh)
     = (0, ''Incomplete'')"
  using
    get_course_completion_fallback
      [of down "''https://lms.example.org''" "''secret''" "JInt 1" "JInt 11" fresh]
    get_course_completion_fallback
      [of campus "''https://lms.example.org''" "''secret''" "JInt 1" "JInt 11" fresh]
  by (simp add: call_moodle_cases down_def campus_def fresh_def attempt_result_def
        moodle_exception_def obj_get_def numeral_3_eq_3)

subsection \<open>Activity completion of a user\<close>

text \<open>
  C7. For an entry of \<^verbatim>\<open>statuses\<close>, the label stored under its \<^verbatim>\<open>cmid\<close> is
  \<^verbatim>\<open>Completed\<close> for the state 1 or 2, \<^verbatim>\<open>Failed\<close> for the state 3 and \<^verbatim>\<open>Incomplete\<close> for
  every other integer; an entry without a state gets \<^verbatim>\<open>Incomplete\<close>, and so does a state
  that is neither an integer nor a boolean.
\<close>

theorem state_code_label:
  "(\<forall>n. obj_get kvs ''state'' (JInt 0) = JInt n \<longrightarrow>
       status_entry (JObj kvs)
         = Inr (obj_get kvs ''cmid'' JNull,
                if n = 1 \<or> n = 2 then ''Completed'' else if n = 3 then ''Failed'' else ''Incomplete''))
   \<and> (map_of kvs ''state'' = None \<longrightarrow>
       status_entry (JObj kvs) = Inr (obj_get kvs ''cmid'' JNull, ''Incomplete''))
   \<and> (\<forall>v. obj_get kvs ''state'' (JInt 0) = v \<and> (\<forall>n. v \<noteq> JInt n) \<and> (\<forall>b. v \<noteq> JBool b) \<longrightarrow>
       status_entry (JObj kvs) = Inr (obj_get kvs ''cmid'' JNull, ''Incomplete''))"
  by (auto simp: status_entry_def py_get_def bindE_def state_status_def eq_int_def obj_get_def
      split: json.splits)

theorem state_code_label_witness:
  "map (\<lambda>s. status_entry (JObj [(''cmid'', JInt 101), (''state'', JInt s)])) [0, 1, 2, 3, 4]
     = [Inr (JInt 101, ''Incomplete''), Inr (JInt 101, ''Completed''), Inr (JInt 101, ''Completed''),
        Inr (JInt 101, ''Failed''), Inr (JInt 101, ''Incomplete'')]
   \<and> status_entry (JObj [(''cmid'', JInt 101)]) = Inr (JInt 101, ''Incomplete'')"
  using
    state_code_label [of "[(''cmid'', JInt 101), (''state'', JInt 0)]", THEN conjunct1, rule_format, of 0]
    state_code_label [of "[(''cmid'', JInt 101), (''state'', JInt 1)]", THEN conjunct1, rule_format, of 1]
    state_code_label [of "[(''cmid'', JInt 101), (''state'', JInt 2)]", THEN conjunct1, rule_format, of 2]
    state_code_label [of "[(''cmid'', JInt 101), (''state'', JInt 3)]", THEN conjunct1, rule_format, of 3]
    state_code_label [of "[(''cmid'', JInt 101), (''state'', JInt 4)]", THEN conjunct1, rule_format, of 4]
    state_code_label [of "[(''cmid'', JInt 101)]", THEN conjunct2, THEN conjunct1]
  by (simp add: obj_get_def)

subsection \<open>Dictionaries\<close>

lemma key_eq_refl [simp]: "key_eq k k"
  by (simp add: key_eq_def)

lemma key_eq_sym: "key_eq k k' \<Longrightarrow> key_eq k' k"
  by (simp add: key_eq_def)

lemma key_eq_trans: "key_eq a b \<Longrightarrow> key_eq b c \<Longrightarrow> key_eq a c"
  by (simp add: key_eq_def)

lemma key_eq_left: "key_eq a b \<Longrightarrow> key_eq a c = key_eq b c"
  by (simp add: key_eq_def)

lemma dict_lookup_store:
  "dict_lookup (dict_store d k v) k' = (if key_eq k k' then Some v else dict_lookup d k')"
  by (induction d) (auto simp: key_eq_def)

subsection \<open>The loop over the completion statuses\<close>

lemma state_status_label: "state_status v \<in> status_labels"
  by (simp add: state_status_def status_labels_def)

lemma status_entry_Inr:
  "status_entry s = Inr (k, l) \<Longrightarrow> k = entry_cmid s \<and> l = entry_label s \<and> l \<in> status_labels"
  by (auto simp: status_entry_def py_get_def bindE_def entry_cmid_def entry_label_def
        state_status_label split: json.splits)

lemma status_entry_well_formed:
  "well_formed_entry s \<Longrightarrow>
     bindE (status_entry s) (\<lambda>(cmid, status). dict_set out cmid status)
       = Inr (dict_store out (entry_cmid s) (entry_label s))"
  by (auto simp: well_formed_entry_def status_entry_def py_get_def bindE_def entry_cmid_def
        entry_label_def dict_set_def split: json.splits)

lemma set_dict_store:
  "set (dict_store d k v) \<subseteq> set d \<union> {(k', v) | k'. key_eq k' k}"
  by (induction d) (auto split: if_splits)

lemma statuses_loop_values:
  "\<forall>kv\<in>set out. snd kv \<in> status_labels \<and> (\<exists>s\<in>S. key_eq (fst kv) (entry_cmid s)) \<Longrightarrow> set ss \<subseteq> S \<Longrightarrow>
   \<forall>kv\<in>set (statuses_loop ss out). snd kv \<in> status_labels \<and> (\<exists>s\<in>S. key_eq (fst kv) (entry_cmid s))"
proof (induction ss arbitrary: out)
  case Nil
  then show ?case by simp
next
  case (Cons s ss)
  show ?case
  proof (cases "bindE (status_entry s) (\<lambda>(cmid, status). dict_set out cmid status)")
    case (Inl e)
    then show ?thesis using Cons.prems by simp
  next
    case (Inr out')
    then obtain k l where e: "status_entry s = Inr (k, l)" and o: "dict_set out k l = Inr out'"
      by (auto simp: bindE_def split: sum.splits)
    from o have out': "out' = dict_store out k l"
      by (auto simp: dict_set_def split: if_splits)
    from status_entry_Inr [OF e] have kl: "k = entry_cmid s" "l \<in> status_labels" by auto
    have "\<forall>kv\<in>set out'. snd kv \<in> status_labels \<and> (\<exists>s\<in>S. key_eq (fst kv) (entry_cmid s))"
    proof
      fix kv assume "kv \<in> set out'"
      then have "kv \<in> set out \<or> (snd kv = l \<and> key_eq (fst kv) k)"
        using set_dict_store [of out k l] unfolding out' by auto
      then show "snd kv \<in> status_labels \<and> (\<exists>s\<in>S. key_eq (fst kv) (entry_cmid s))"
        using Cons.prems kl by auto
    qed
    from Cons.IH [OF this] Cons.prems(2) Inr show ?thesis by simp
  qed
qed

lemma statuses_loop_well_formed:
  "list_all well_formed_entry ss \<Longrightarrow>
   statuses_loop ss out = fold (\<lambda>s acc. dict_store acc (entry_cmid s) (entry_label s)) ss out"
  by (induction ss arbitrary: out) (simp_all add: status_entry_well_formed)

lemma dict_lookup_fold_store:
  "dict_lookup (fold (\<lambda>s acc. dict_store acc (entry_cmid s) (entry_label s)) ss out) k
     = (case find (\<lambda>s. key_eq (entry_cmid s) k) (rev ss) of
          None \<Rightarrow> dict_lookup out k
        | Some s \<Rightarrow> Some (entry_label s))"
  by (induction ss arbitrary: out rule: rev_induct) (simp_all add: dict_lookup_store)


text \<open>
  C6. When the per-activity completion call raises, \<^verbatim>\<open>get_activity_completion\<close> returns
  the empty mapping; it returns a mapping and a state on every path, so no failure leaves
  it. When the call succeeds, every value of the mapping is one of the three status labels
  and every key is the \<^verbatim>\<open>cmid\<close> of an entry of the response; for a response whose entries
  are well formed, the mapping gives for an activity id the label of the last entry with
  that id, and nothing for an id that no entry has.
\<close>

theorem get_activity_completion_mapping:
  fixes srv url token course_id user_id st
  defines "call \<equiv> call_moodle srv url token ''core_completion_get_activities_completion_status''
                     [(''courseid'', course_id), (''userid'', user_id)] st"
  defines "res \<equiv> get_activity_completion srv url token course_id user_id st"
  shows "(\<forall>e st'. call = (Inl e, st') \<longrightarrow> res = ([], st'))
     \<and> (\<forall>data st'. call = (Inr data, st') \<longrightarrow>
            snd res = st' \<and> (\<forall>kv\<in>set (fst res). snd kv \<in> status_labels))
     \<and> (\<forall>d ss st'. call = (Inr (JObj d), st') \<and> obj_get d ''statuses'' (JList []) = JList ss \<longrightarrow>
            (\<forall>kv\<in>set (fst res). \<exists>s\<in>set ss. key_eq (fst kv) (entry_cmid s)))
     \<and> (\<forall>d ss st'. call = (Inr (JObj d), st') \<and> obj_get d ''statuses'' (JList []) = JList ss
            \<and> list_all well_formed_entry ss \<longrightarrow>
            (\<forall>k. dict_lookup (fst res) k
                   = map_option entry_label (find (\<lambda>s. key_eq (entry_cmid s) k) (rev ss))))"
proof -
  have fail: "\<And>e st'. call = (Inl e, st') \<Longrightarrow> res = ([], st')"
    unfolding res_def call_def get_activity_completion_def by simp
  have ok: "\<And>data st'. call = (Inr data, st') \<Longrightarrow> res = (activity_map_of_response data, st')"
    unfolding res_def call_def get_activity_completion_def by simp
  have labels: "\<forall>kv\<in>set (activity_map_of_response data). snd kv \<in> status_labels" for data
  proof (cases "bindE (py_get data ''statuses'' (JList [])) py_iter")
    case (Inl e)
    then show ?thesis by (simp add: activity_map_of_response_def)
  next
    case (Inr ss)
    have "\<forall>kv\<in>set (statuses_loop ss []).
            snd kv \<in> status_labels \<and> (\<exists>s\<in>set ss. key_eq (fst kv) (entry_cmid s))"
      by (rule statuses_loop_values) simp_all
    with Inr show ?thesis by (simp add: activity_map_of_response_def)
  qed
  have obj: "activity_map_of_response (JObj d) = statuses_loop ss []"
    if "obj_get d ''statuses'' (JList []) = JList ss" for d ss
    using that by (simp add: activity_map_of_response_def py_get_def bindE_def py_iter_def)
  have keys: "\<forall>kv\<in>set (activity_map_of_response (JObj d)). \<exists>s\<in>set ss. key_eq (fst kv) (entry_cmid s)"
    if "obj_get d ''statuses'' (JList []) = JList ss" for d ss
  proof -
    have "\<forall>kv\<in>set (statuses_loop ss []).
            snd kv \<in> status_labels \<and> (\<exists>s\<in>set ss. key_eq (fst kv) (entry_cmid s))"
      by (rule statuses_loop_values) simp_all
    then show ?thesis unfolding obj [OF that] by blast
  qed
  have lookup: "dict_lookup (activity_map_of_response (JObj d)) k
        = map_option entry_label (find (\<lambda>s. key_eq (entry_cmid s) k) (rev ss))"
    if "obj_get d ''statuses'' (JList []) = JList ss" "list_all well_formed_entry ss" for d ss k
    unfolding obj [OF that(1)] statuses_loop_well_formed [OF that(2)] dict_lookup_fold_store
    by (simp split: option.splits)
  show ?thesis
  proof (intro conjI allI impI)
    fix e st' assume "call = (Inl e, st')"
    then show "res = ([], st')" by (rule fail)
  next
    fix data st' assume "call = (Inr data, st')"
    from ok [OF this] labels [of data]
    show "snd res = st'" and "\<forall>kv\<in>set (fst res). snd kv \<in> status_labels" by simp_all
  next
    fix d ss st'
    assume a: "call = (Inr (JObj d), st') \<and> obj_get d ''statuses'' (JList []) = JList ss"
    then have "fst res = activity_map_of_response (JObj d)"
      using ok by simp
    with keys [of d ss] a
    show "\<forall>kv\<in>set (fst res). \<exists>s\<in>set ss. key_eq (fst kv) (entry_cmid s)"
      by simp
  next
    fix d ss st' k
    assume a: "call = (Inr (JObj d), st') \<and> obj_get d ''statuses'' (JList []) = JList ss
              \<and> list_all well_formed_entry ss"
    then have "fst res = activity_map_of_response (JObj d)"
      using ok by simp
    with lookup [of d ss k] a
    show "dict_lookup (fst res) k
            = map_option entry_label (find (\<lambda>s. key_eq (entry_cmid s) k) (rev ss))"
      by simp
  qed
qed

theorem get_activity_completion_mapping_witness:
  "fst (get_activity_completion campus ''https://lms.example.org'' ''secret'' (JInt 1) (JInt 11) fresh) = []
   \<and> dict_lookup (fst (get_activity_completion campus ''https://lms.example.org'' ''secret''
                        (JInt 1) (JInt 10) fresh)) (JInt 101) = Some ''Completed''"
  using
    get_activity_completion_mapping [of campus "''https://lms.example.org''" "''secret''" "JInt 1" "JInt 11" fresh, THEN conjunct1]
    get_activity_completion_mapping [of campus "''https://lms.example.org''" "''secret''" "JInt 1" "JInt 10" fresh,
        THEN conjunct2, THEN conjunct2, THEN conjunct2, rule_format,
        of "[(''statuses'', JList [JObj [(''cmid'', JInt 101), (''state'', JInt 1)]])]" _
           "[JObj [(''cmid'', JInt 101), (''state'', JInt 1)]]" "JInt 101"]
  by (simp add: call_moodle_cases campus_def fresh_def attempt_result_def
        moodle_exception_def obj_get_def well_formed_entry_def hashable_def entry_cmid_def
        entry_label_def state_status_def eq_int_def key_eq_def)

subsection \<open>The course filter\<close>

lemma of_char_digit_char: "d < 10 \<Longrightarrow> (of_char (digit_char d) :: nat) = 48 + d"
  by (simp add: digit_char_def)

lemma digit_char_is_digit: "d < 10 \<Longrightarrow> is_digit (digit_char d)"
  by (simp add: is_digit_def of_char_digit_char)

lemma nat_str_digits: "\<forall>c\<in>set (nat_str n). is_digit c"
proof (induction n rule: nat_str.induct)
  case (1 n)
  show ?case
  proof (cases "n < 10")
    case True
    then show ?thesis by (subst nat_str.simps) (simp add: digit_char_is_digit)
  next
    case False
    with 1 show ?thesis by (subst nat_str.simps) (auto simp: digit_char_is_digit)
  qed
qed

lemma int_str_chars: "\<forall>c\<in>set (int_str i). digit_or_minus c"
  using nat_str_digits by (auto simp: int_str_def digit_or_minus_def)

lemma of_char_ascii_lower_char:
  "is_upper c \<Longrightarrow> (of_char (ascii_lower_char c) :: nat) = of_char c + 32"
  by (simp add: ascii_lower_char_def is_upper_def)

lemma of_char_digit_or_minus: "digit_or_minus d \<Longrightarrow> (of_char d :: nat) \<le> 57"
  by (auto simp: digit_or_minus_def is_digit_def)

lemma ascii_lower_char_digit_or_minus: "digit_or_minus (ascii_lower_char c) \<Longrightarrow> ascii_lower_char c = c"
proof (cases "is_upper c")
  case True
  assume "digit_or_minus (ascii_lower_char c)"
  then have "(of_char (ascii_lower_char c) :: nat) \<le> 57" by (rule of_char_digit_or_minus)
  with of_char_ascii_lower_char [OF True] True show ?thesis by (simp add: is_upper_def)
next
  case False
  then show ?thesis by (simp add: ascii_lower_char_def)
qed

lemma ascii_lower_digits: "ascii_lower e = s \<Longrightarrow> \<forall>c\<in>set s. digit_or_minus c \<Longrightarrow> e = s"
  unfolding ascii_lower_def
proof (induction e arbitrary: s)
  case Nil
  then show ?case by simp
next
  case (Cons a e)
  from Cons.prems obtain t where s: "s = ascii_lower_char a # t" and t: "map ascii_lower_char e = t"
    by auto
  from Cons.prems(2) s have "digit_or_minus (ascii_lower_char a)" and "\<forall>c\<in>set t. digit_or_minus c"
    by simp_all
  with Cons.IH [OF t] ascii_lower_char_digit_or_minus [of a] s show ?case by simp
qed

lemma ascii_lower_int_str: "ascii_lower (int_str i) = int_str i"
proof -
  have "\<forall>c\<in>set s. digit_or_minus c \<Longrightarrow> map ascii_lower_char s = s" for s
  proof (induction s)
    case Nil
    then show ?case by simp
  next
    case (Cons a s)
    then have "\<not> is_upper a"
      using of_char_digit_or_minus [of a] by (auto simp: is_upper_def)
    with Cons show ?case by (simp add: ascii_lower_char_def)
  qed
  then show ?thesis using int_str_chars by (simp add: ascii_lower_def)
qed

lemma keeps_numerals_ascii_lower: "keeps_numerals ascii_lower"
  unfolding keeps_numerals_def
proof (intro allI iffI)
  fix e i assume "ascii_lower e = int_str i"
  from ascii_lower_digits [OF this int_str_chars] show "e = int_str i" .
next
  fix e i assume "e = int_str i"
  then show "ascii_lower e = int_str i" by (simp add: ascii_lower_int_str)
qed

lemma int_str_in_lowered:
  assumes "keeps_numerals lower"
  shows "int_str i \<in> set (map lower es) \<longleftrightarrow> int_str i \<in> set es"
proof
  assume "int_str i \<in> set (map lower es)"
  then obtain e where e: "e \<in> set es" "lower e = int_str i" by auto
  from assms e(2) have "e = int_str i" by (simp add: keeps_numerals_def)
  with e(1) show "int_str i \<in> set es" by simp
next
  assume "int_str i \<in> set es"
  then have "lower (int_str i) \<in> lower ` set es" by (rule imageI)
  moreover from assms have "lower (int_str i) = int_str i" by (simp add: keeps_numerals_def)
  ultimately show "int_str i \<in> set (map lower es)" by simp
qed

lemma well_formed_courseE:
  assumes "well_formed_course c"
  obtains kvs i s where "c = JObj kvs" "map_of kvs ''id'' = Some (JInt i)"
    "map_of kvs ''fullname'' = Some (JStr s)"
proof -
  from assms obtain kvs where c: "c = JObj kvs"
    by (cases c) (simp_all add: well_formed_course_def)
  from assms c obtain v where v: "map_of kvs ''id'' = Some v"
    by (cases "map_of kvs ''id''") (simp_all add: well_formed_course_def)
  from assms c v obtain i where i: "v = JInt i"
    by (cases v) (simp_all add: well_formed_course_def)
  from assms c v i obtain w where w: "map_of kvs ''fullname'' = Some w"
    by (cases "map_of kvs ''fullname''") (simp_all add: well_formed_course_def)
  from assms c v i w obtain s where "w = JStr s"
    by (cases w) (simp_all add: well_formed_course_def)
  with c v i w that show thesis by simp
qed

lemma course_matches_well_formed:
  assumes "keeps_numerals lower" and "well_formed_course c"
  shows "course_matches lower (map lower es) c
     = Inr (list_ex (\<lambda>e. course_id_str c = e \<or> same_ignoring_case lower (course_fullname c) e) es)"
proof -
  from assms(2) obtain kvs i s where c: "c = JObj kvs" and i: "map_of kvs ''id'' = Some (JInt i)"
    and s: "map_of kvs ''fullname'' = Some (JStr s)"
    by (rule well_formed_courseE)
  have id: "course_id_str c = int_str i"
    by (simp add: c i course_id_str_def obj_get_def py_str_def)
  have name: "course_fullname c = s"
    by (simp add: c s course_fullname_def obj_get_def py_str_def)
  have ex: "list_ex (\<lambda>e. int_str i = e \<or> same_ignoring_case lower s e) es
      \<longleftrightarrow> int_str i \<in> set es \<or> lower s \<in> set (map lower es)"
    by (auto simp: list_ex_iff same_ignoring_case_def)
  have "course_matches lower (map lower es) c
      = Inr (int_str i \<in> set (map lower es) \<or> lower s \<in> set (map lower es))"
    by (simp add: c i s course_matches_def py_item_def bindE_def py_str_def del: set_map)
  then show ?thesis
    unfolding id name ex int_str_in_lowered [OF assms(1)] by simp
qed

lemma filter_courses_well_formed:
  "keeps_numerals lower \<Longrightarrow> list_all well_formed_course cs \<Longrightarrow>
   filter_courses lower (map lower es) cs acc = Inr (acc @ spec_course_filter lower es cs)"
  by (induction cs arbitrary: acc)
     (simp_all add: course_matches_well_formed bindE_def spec_course_filter_def)

text \<open>
  C8. \<^verbatim>\<open>str.lower\<close> is the parameter \<open>lower\<close>, of which only \<open>keeps_numerals\<close> is
  used. When the course list is fetched and its courses are well formed,
  \<^verbatim>\<open>get_all_courses\<close> with a non-empty filter list returns exactly the courses whose id
  as a string, or whose full name compared without regard to case, equals an entry of the
  filter list. The result is a sublist of the course list and no exception is raised, so
  an entry that matches no course adds nothing.
\<close>

theorem get_all_courses_filter:
  assumes "keeps_numerals lower"
    and "call_moodle srv url token ''core_course_get_courses_by_field'' [] st = (Inr (JObj d), st')"
    and "obj_get d ''courses'' (JList []) = JList cs"
    and "list_all well_formed_course cs"
    and "entries \<noteq> []"
  shows "get_all_courses lower srv url token (Some entries) st
           = (Inr (JList (spec_course_filter lower entries cs)), st')
         \<and> set (spec_course_filter lower entries cs) \<subseteq> set cs"
proof -
  have sub: "set (spec_course_filter lower entries cs) \<subseteq> set cs"
    by (simp add: spec_course_filter_def)
  from assms(5) obtain x xs where entries: "entries = x # xs"
    by (cases entries) auto
  have "filter_courses lower (map lower (x # xs)) cs [] = Inr (spec_course_filter lower (x # xs) cs)"
    using filter_courses_well_formed [OF assms(1) assms(4), of "x # xs" "[]"] by simp
  then have "get_all_courses lower srv url token (Some (x # xs)) st
           = (Inr (JList (spec_course_filter lower (x # xs) cs)), st')"
    unfolding get_all_courses_def
    by (simp add: assms(2) assms(3) py_get_def bindE_def py_iter_def del: list.map)
  with sub show ?thesis
    unfolding entries by simp
qed

theorem get_all_courses_filter_witness:
  "keeps_numerals ascii_lower
   \<and> list_all well_formed_course [algebra, biology]
   \<and> get_all_courses ascii_lower campus ''https://lms.example.org'' ''secret''
        (Some [''2'', ''ALGEBRA i'', ''77'', ''Chemistry'']) fresh
      = (Inr (JList [algebra, biology]),
         fresh\<lparr>sent := [\<lparr>endpoint = ''https://lms.example.org/webservice/rest/server.php'',
                   wstoken = ''secret'', wsfunction = ''core_course_get_courses_by_field'',
                   body = []\<rparr>]\<rparr>)
   \<and> fst (get_all_courses ascii_lower campus ''https://lms.example.org'' ''secret''
        (Some [''Biology 2'', ''ALGEBRA'', ''77'']) fresh) = Inr (JList [])"
proof -
  let ?st = "fresh\<lparr>sent := [\<lparr>endpoint = ''https://lms.example.org/webservice/rest/server.php'',
                   wstoken = ''secret'', wsfunction = ''core_course_get_courses_by_field'',
                   body = []\<rparr>]\<rparr>"
  have call: "call_moodle campus ''https://lms.example.org'' ''secret''
                ''core_course_get_courses_by_field'' [] fresh
              = (Inr (JObj [(''courses'', JList [algebra, biology])]), ?st)"
    by (simp add: call_moodle_cases campus_def fresh_def attempt_result_def moodle_exception_def
          obj_get_def)
  have courses: "obj_get [(''courses'', JList [algebra, biology])] ''courses'' (JList [])
                   = JList [algebra, biology]"
    by (simp add: obj_get_def)
  have wf: "list_all well_formed_course [algebra, biology]"
    by (simp add: well_formed_course_def algebra_def biology_def)
  have both: "spec_course_filter ascii_lower [''2'', ''ALGEBRA i'', ''77'', ''Chemistry'']
                [algebra, biology] = [algebra, biology]"
    by code_simp
  have none: "spec_course_filter ascii_lower [''Biology 2'', ''ALGEBRA'', ''77''] [algebra, biology]
                = []"
    by code_simp
  from get_all_courses_filter [OF keeps_numerals_ascii_lower call courses wf,
         of "[''2'', ''ALGEBRA i'', ''77'', ''Chemistry'']"]
    get_all_courses_filter [OF keeps_numerals_ascii_lower call courses wf,
         of "[''Biology 2'', ''ALGEBRA'', ''77'']"]
    wf keeps_numerals_ascii_lower
  show ?thesis
    by (simp add: both none)
qed

subsection \<open>The per-course aggregator\<close>

text \<open>
  C3. When the activity columns of a course have been built and the fetch of its enrolled
  users raises, \<^verbatim>\<open>process_one_course\<close> returns normally with no per-course row, no
  consolidated row and no enrollment row (and the activity column names), after printing
  a failure line that names the course and the failure.
\<close>

theorem users_fetch_failure_empty_rows:
  fixes ckvs :: "(string \<times> json) list" and capitalize srv url token st tf
  defines "cid \<equiv> obj_get ckvs ''id'' JNull"
  defines "cname \<equiv> obj_get ckvs ''fullname'' (JStr [])"
  assumes "course_activity_columns capitalize srv url token cid (say (processing_line cname cid) st)
             = (Inr activity_columns, st1)"
    and "get_course_users srv url token cid st1 = (Inl e, st2)"
  shows "process_one_course capitalize srv tf (JObj ckvs) url token st
           = (Inr ([], [], [], map snd activity_columns),
              st2\<lparr>printed := printed st2 @
                 [''  '' @ [CHR 0xE2, CHR 0x9D, CHR 0x8C] @ '' Failed to get users for course ''
                    @ py_str cname @ '': '' @ exn_str e]\<rparr>)"
  using assms(3,4) unfolding cid_def cname_def
  by (simp add: process_one_course_def Let_def say_def users_failure_message_def)

lemma biology_columns:
  "fst (course_activity_columns ascii_capitalize campus ''https://lms.example.org'' ''secret'' (JInt 2)
          (say (processing_line (JStr ''Biology'') (JInt 2)) fresh))
     = Inr [(JInt 101, ''Quiz: Final'')]"
  by code_simp

lemma biology_users:
  "fst (get_course_users campus ''https://lms.example.org'' ''secret'' (JInt 2)
          (snd (course_activity_columns ascii_capitalize campus ''https://lms.example.org'' ''secret'' (JInt 2)
                  (say (processing_line (JStr ''Biology'') (JInt 2)) fresh))))
     = Inl (RequestFailure ''503 Server Error'')"
  by code_simp

theorem users_fetch_failure_empty_rows_witness:
  "fst (process_one_course ascii_capitalize campus no_clock biology ''https://lms.example.org'' ''secret'' fresh)
     = Inr ([], [], [], [''Quiz: Final''])
   \<and> last (printed (snd (process_one_course ascii_capitalize campus no_clock biology
                           ''https://lms.example.org'' ''secret'' fresh)))
     = ''  '' @ [CHR 0xE2, CHR 0x9D, CHR 0x8C]
         @ '' Failed to get users for course Biology: 503 Server Error''"
proof -
  let ?kvs = "[(''id'', JInt 2), (''fullname'', JStr ''Biology''), (''shortname'', JStr ''bio 2''),
               (''categoryid'', JInt 3)]"
  let ?X = "course_activity_columns ascii_capitalize campus ''https://lms.example.org'' ''secret'' (JInt 2)
              (say (processing_line (JStr ''Biology'') (JInt 2)) fresh)"
  let ?Y = "get_course_users campus ''https://lms.example.org'' ''secret'' (JInt 2) (snd ?X)"
  have id: "obj_get ?kvs ''id'' JNull = JInt 2" and name: "obj_get ?kvs ''fullname'' (JStr []) = JStr ''Biology''"
    by (simp_all add: obj_get_def)
  have x: "?X = (Inr [(JInt 101, ''Quiz: Final'')], snd ?X)"
    using biology_columns by (metis prod.collapse)
  have y: "?Y = (Inl (RequestFailure ''503 Server Error''), snd ?Y)"
    using biology_users by (metis prod.collapse)
  from users_fetch_failure_empty_rows [of ascii_capitalize campus "''https://lms.example.org''" "''secret''" ?kvs fresh, unfolded id name, OF x y,
           of no_clock]
  show ?thesis
    by (simp add: biology_def py_str_def)
qed

lemma base_user_of_last_access:
  "base_user_of tf u = Inr b \<Longrightarrow> \<exists>la. last_access_str tf u = Inr la"
  by (cases u; cases "last_access_str tf u") (simp_all add: base_user_of_def bindE_def)

lemma process_user_isl:
  "isl (fst (process_user srv tf url token cid cname cshort cols u st)) \<longleftrightarrow> isl (base_user_of tf u)"
proof (cases "base_user_of tf u")
  case (Inl e)
  then show ?thesis
    by (cases u) (simp_all add: process_user_def bindE_def base_user_of_def)
next
  case (Inr b)
  then obtain kvs where u: "u = JObj kvs"
    by (cases u) (simp_all add: base_user_of_def)
  from base_user_of_last_access [OF Inr] obtain la where "last_access_str tf u = Inr la" ..
  with Inr u show ?thesis
    by (simp add: process_user_def bindE_def Let_def split: prod.splits)
qed

lemma users_loop_isl:
  "isl (fst (users_loop (process_user srv tf url token cid cname cshort cols) us acc st))
     \<longleftrightarrow> (\<exists>u\<in>set us. isl (base_user_of tf u))"
proof (induction us arbitrary: acc st)
  case Nil
  then show ?case by simp
next
  case (Cons u us)
  let ?step = "process_user srv tf url token cid cname cshort cols u st"
  show ?case
  proof (cases "fst ?step")
    case (Inl e)
    then have "isl (base_user_of tf u)"
      using process_user_isl [of srv tf url token cid cname cshort cols u st] by simp
    moreover from Inl obtain st' where "?step = (Inl e, st')" by (cases ?step) auto
    ultimately show ?thesis by simp
  next
    case (Inr rows)
    then have ok: "\<not> isl (base_user_of tf u)"
      using process_user_isl [of srv tf url token cid cname cshort cols u st] by simp
    from Inr obtain st' where "?step = (Inr rows, st')" by (cases ?step) auto
    then show ?thesis
      using ok Cons.IH by (simp split: prod.splits)
  qed
qed

text \<open>
  C1, as the code has it. For a course that is a dictionary: an exception of the
  activities stage (the activities fetch of line 138 or the column names of lines 140 to
  142) is raised to the caller; when that stage succeeds, a failure of the enrolled-users
  fetch is caught and \<^verbatim>\<open>process_one_course\<close> returns; when the users are fetched,
  \<^verbatim>\<open>process_one_course\<close> returns exactly when the users payload is well formed, whatever
  the per-user completion queries do.
\<close>

theorem process_one_course_returns:
  fixes ckvs :: "(string \<times> json) list" and capitalize srv url token st tf
  defines "cid \<equiv> obj_get ckvs ''id'' JNull"
  defines "cname \<equiv> obj_get ckvs ''fullname'' (JStr [])"
  defines "stage \<equiv> course_activity_columns capitalize srv url token cid (say (processing_line cname cid) st)"
  defines "res \<equiv> process_one_course capitalize srv tf (JObj ckvs) url token st"
  shows "(\<forall>e st1. stage = (Inl e, st1) \<longrightarrow> res = (Inl e, st1))
     \<and> (\<forall>cols st1 e st2. stage = (Inr cols, st1)
            \<and> get_course_users srv url token cid st1 = (Inl e, st2)
          \<longrightarrow> \<not> isl (fst res))
     \<and> (\<forall>cols st1 users st2. stage = (Inr cols, st1)
            \<and> get_course_users srv url token cid st1 = (Inr users, st2)
          \<longrightarrow> (isl (fst res) \<longleftrightarrow> \<not> users_well_formed tf users))"
proof (intro conjI allI impI)
  fix e st1 assume "stage = (Inl e, st1)"
  then show "res = (Inl e, st1)"
    unfolding stage_def res_def cid_def cname_def
    by (simp add: process_one_course_def Let_def)
next
  fix cols st1 e st2
  assume "stage = (Inr cols, st1) \<and> get_course_users srv url token cid st1 = (Inl e, st2)"
  then show "\<not> isl (fst res)"
    unfolding stage_def res_def cid_def cname_def
    by (simp add: process_one_course_def Let_def)
next
  fix cols st1 users st2
  assume a: "stage = (Inr cols, st1) \<and> get_course_users srv url token cid st1 = (Inr users, st2)"
  show "isl (fst res) \<longleftrightarrow> \<not> users_well_formed tf users"
  proof (cases "py_iter users")
    case (Inl e)
    with a show ?thesis
      unfolding stage_def res_def cid_def cname_def
      by (simp add: process_one_course_def Let_def users_well_formed_def)
  next
    case (Inr us)
    let ?loop = "users_loop (process_user srv tf url token cid cname
                   (obj_get ckvs ''shortname'' (JStr [])) cols) us ([], [], []) st2"
    have res: "isl (fst res) \<longleftrightarrow> isl (fst ?loop)"
      using a Inr unfolding stage_def res_def cid_def cname_def
      by (simp add: process_one_course_def Let_def split: prod.splits sum.splits)
    show ?thesis
      unfolding res users_loop_isl
      by (simp add: users_well_formed_def Inr list_all_iff)
  qed
qed


lemma algebra_columns:
  "fst (course_activity_columns ascii_capitalize campus ''https://lms.example.org'' ''secret'' (JInt 1)
          (say (processing_line (JStr ''Algebra I'') (JInt 1)) fresh))
     = Inr [(JInt 101, ''Quiz: Final'')]"
  by code_simp

lemma algebra_users:
  "fst (get_course_users campus ''https://lms.example.org'' ''secret'' (JInt 1)
          (snd (course_activity_columns ascii_capitalize campus ''https://lms.example.org'' ''secret'' (JInt 1)
                  (say (processing_line (JStr ''Algebra I'') (JInt 1)) fresh))))
     = Inr (JList [ann, bob])"
  by code_simp

lemma ann_bob_well_formed: "users_well_formed no_clock (JList [ann, bob])"
  by code_simp

theorem process_one_course_returns_witness:
  "users_well_formed no_clock (JList [ann, bob])
   \<and> \<not> isl (fst (process_one_course ascii_capitalize campus no_clock algebra ''https://lms.example.org'' ''secret'' fresh))"
proof -
  let ?kvs = "[(''id'', JInt 1), (''fullname'', JStr ''Algebra I''), (''shortname'', JStr ''ALG-1''),
               (''categoryid'', JInt 3)]"
  let ?X = "course_activity_columns ascii_capitalize campus ''https://lms.example.org'' ''secret'' (JInt 1)
              (say (processing_line (JStr ''Algebra I'') (JInt 1)) fresh)"
  let ?Y = "get_course_users campus ''https://lms.example.org'' ''secret'' (JInt 1) (snd ?X)"
  have id: "obj_get ?kvs ''id'' JNull = JInt 1"
    and name: "obj_get ?kvs ''fullname'' (JStr []) = JStr ''Algebra I''"
    by (simp_all add: obj_get_def)
  have x: "?X = (Inr [(JInt 101, ''Quiz: Final'')], snd ?X)"
    using algebra_columns by (metis prod.collapse)
  have y: "?Y = (Inr (JList [ann, bob]), snd ?Y)"
    using algebra_users by (metis prod.collapse)
  note t = process_one_course_returns [of ascii_capitalize campus "''https://lms.example.org''" "''secret''" ?kvs fresh no_clock,
               unfolded id name, THEN conjunct2, THEN conjunct2]
  from t x y have "isl (fst (process_one_course ascii_capitalize campus no_clock (JObj ?kvs)
                     ''https://lms.example.org'' ''secret'' fresh))
                   \<longleftrightarrow> \<not> users_well_formed no_clock (JList [ann, bob])"
    by blast
  with ann_bob_well_formed show ?thesis
    by (simp add: algebra_def)
qed

text \<open>
  A failure of the activities fetch is not caught in \<^verbatim>\<open>process_one_course\<close>: with a server
  that cannot be reached, the third failure of \<^verbatim>\<open>core_course_get_contents\<close> is raised to
  the caller.
\<close>

theorem process_one_course_raises_counterexample:
  "fst (process_one_course ascii_capitalize down no_clock algebra ''https://lms.example.org'' ''secret'' fresh)
     = Inl (RequestFailure ''third failure'')"
  by code_simp

subsection \<open>The orchestrator\<close>

lemma collect_step_ok:
  assumes "sheet_course_ok (fst fut)"
  shows "\<exists>co en out'. collect_step fut ((pcr, ca, ea), out)
           = Inr ((pcr @ succeeded [fut], co, en), out')"
proof -
  from assms obtain ckvs where c: "fst fut = JObj ckvs"
    by (cases "fst fut") (simp_all add: sheet_course_ok_def)
  show ?thesis
  proof (cases "snd fut")
    case (Inl e)
    with c show ?thesis
      by (simp add: collect_step_def Let_def succeeded_def)
  next
    case (Inr r)
    obtain pc co en cols where r: "r = (pc, co, en, cols)"
      by (cases r) auto
    with Inr c show ?thesis
      by (simp add: collect_step_def Let_def succeeded_def course_short_def)
  qed
qed

lemma succeeded_Cons: "succeeded (fut # futs) = succeeded [fut] @ succeeded futs"
  by (simp add: succeeded_def)

lemma collect_loop_ok:
  "list_all sheet_course_ok (map fst completed) \<Longrightarrow>
   \<exists>co en out'. foldE collect_step completed ((pcr, ca, ea), out)
      = Inr ((pcr @ succeeded completed, co, en), out')"
proof (induction completed arbitrary: pcr ca ea out)
  case Nil
  then show ?case by (simp add: succeeded_def)
next
  case (Cons fut futs)
  from Cons.prems have ok: "sheet_course_ok (fst fut)" and oks: "list_all sheet_course_ok (map fst futs)"
    by simp_all
  from collect_step_ok [OF ok, of pcr ca ea out] obtain co en out'
    where step: "collect_step fut ((pcr, ca, ea), out) = Inr ((pcr @ succeeded [fut], co, en), out')"
    by blast
  from Cons.IH [OF oks, of "pcr @ succeeded [fut]" co en out'] step
  show ?case
    by (simp add: succeeded_Cons [of fut futs])
qed

lemma succeeded_strings:
  "list_all sheet_course_ok (map fst completed) \<Longrightarrow> list_all (\<lambda>x. is_str (fst x)) (succeeded completed)"
  by (induction completed)
     (auto simp: succeeded_def sheet_course_ok_def split: sum.splits json.splits)

lemma mapE_Inr: "(\<And>x. x \<in> set xs \<Longrightarrow> f x = Inr (g x)) \<Longrightarrow> mapE f xs = Inr (map g xs)"
  by (induction xs) simp_all

lemma lower_key_str: "is_str (fst x) \<Longrightarrow> lower_key lower x = Inr (lower (py_str (fst x)))"
  by (cases "fst x") (simp_all add: lower_key_def is_str_def py_str_def)

lemma per_course_sheet_str: "is_str (fst x) \<Longrightarrow> per_course_sheet x = Inr (sheet_of x)"
  by (cases "fst x") (simp_all add: per_course_sheet_def is_str_def py_str_def sheet_of_def Let_def)

lemma insort_key_tagged:
  "insort_key fst (k x, x) (map (\<lambda>y. (k y, y)) ys) = map (\<lambda>y. (k y, y)) (insort_key k x ys)"
  by (induction ys) simp_all

lemma sort_key_tagged:
  "sort_key fst (map (\<lambda>y. (k y, y)) xs) = map (\<lambda>y. (k y, y)) (sort_key k xs)"
  by (induction xs) (simp_all add: insort_key_tagged)

lemma per_course_sheets_ok:
  assumes "list_all (\<lambda>x. is_str (fst x)) results"
  shows "per_course_sheets lower results
           = Inr (map sheet_of (sort_key (\<lambda>x. lower (py_str (fst x))) results))"
proof -
  let ?key = "\<lambda>x. lower (py_str (fst x))"
  have keys: "mapE (lower_key lower) results = Inr (map ?key results)"
    using assms by (intro mapE_Inr) (simp add: list_all_iff lower_key_str)
  have zip: "zip (map ?key results) results = map (\<lambda>x. (?key x, x)) results"
    by (induction results) simp_all
  have sorted: "map snd (sort_key fst (map (\<lambda>x. (?key x, x)) results)) = sort_key ?key results"
    by (simp add: sort_key_tagged [of ?key] comp_def)
  have "list_all (\<lambda>x. is_str (fst x)) (sort_key ?key results)"
    using assms by (simp add: list_all_iff)
  then have "mapE per_course_sheet (sort_key ?key results)
               = Inr (map sheet_of (sort_key ?key results))"
    by (intro mapE_Inr) (simp add: list_all_iff per_course_sheet_str)
  then show ?thesis
    by (simp add: per_course_sheets_def keys bindE_def zip sorted)
qed

text \<open>
  C10. For whatever \<^verbatim>\<open>str.capitalize\<close> and \<^verbatim>\<open>str.lower\<close> do: when the activity
  columns of a course have been built and the fetch of its
  enrolled users raises, \<^verbatim>\<open>process_one_course\<close> still returns the activity column
  names of the course; and when every course handed back by the pool is a dictionary
  whose short name is a string, the orchestrator collects the results, writes the
  per-course sheets, and among them is the sheet of that course: its header row is the
  base columns, the activity columns of the course and the trailing columns, and it has
  no data row.
\<close>

theorem failed_users_course_keeps_sheet:
  fixes ckvs :: "(string \<times> json) list" and capitalize srv url token st tf
  defines "cid \<equiv> obj_get ckvs ''id'' JNull"
  defines "cname \<equiv> obj_get ckvs ''fullname'' (JStr [])"
  defines "res \<equiv> fst (process_one_course capitalize srv tf (JObj ckvs) url token st)"
  assumes "course_activity_columns capitalize srv url token cid (say (processing_line cname cid) st)
             = (Inr activity_columns, st1)"
    and "get_course_users srv url token cid st1 = (Inl e, st2)"
    and "(JObj ckvs, res) \<in> set completed"
    and "list_all sheet_course_ok (map fst completed)"
  shows "res = Inr ([], [], [], map snd activity_columns)
     \<and> (\<exists>per_course_results consolidated_all enrollment_all out sheets.
           collect completed = Inr ((per_course_results, consolidated_all, enrollment_all), out)
         \<and> per_course_sheets lower per_course_results = Inr sheets
         \<and> \<lparr>title = sheet_title (py_str (course_short (JObj ckvs))),
             headers = base_headers @ map snd activity_columns @ trailing_headers,
             data_rows = []\<rparr> \<in> set sheets)"
proof -
  have res: "res = Inr ([], [], [], map snd activity_columns)"
    using assms(4,5) unfolding res_def cid_def cname_def
    by (simp add: process_one_course_def Let_def)
  let ?x = "(course_short (JObj ckvs), [] :: row list, map snd activity_columns)"
  from collect_loop_ok [OF assms(7), of "[]" "[]" "[]" "[]"] obtain co en out
    where collect: "collect completed = Inr ((succeeded completed, co, en), out)"
    by (auto simp: collect_def)
  from assms(6) res have "(JObj ckvs, Inr ([], [], [], map snd activity_columns)) \<in> set completed"
    by simp
  then have mem: "?x \<in> set (succeeded completed)"
    by (force simp: succeeded_def)
  let ?key = "\<lambda>x :: json \<times> row list \<times> string list. lower (py_str (fst x))"
  have sheets: "per_course_sheets lower (succeeded completed)
                  = Inr (map sheet_of (sort_key ?key (succeeded completed)))"
    by (rule per_course_sheets_ok) (rule succeeded_strings [OF assms(7)])
  from mem have "sheet_of ?x \<in> set (map sheet_of (sort_key ?key (succeeded completed)))"
    by simp
  then have "\<lparr>title = sheet_title (py_str (course_short (JObj ckvs))),
             headers = base_headers @ map snd activity_columns @ trailing_headers,
             data_rows = []\<rparr> \<in> set (map sheet_of (sort_key ?key (succeeded completed)))"
    by (simp add: sheet_of_def)
  with res collect sheets show ?thesis by blast
qed


lemma biology_title: "sheet_title (py_str (course_short biology)) = ''bio2''"
  by code_simp

lemma courses_ok: "list_all sheet_course_ok [algebra, biology]"
  by code_simp

theorem failed_users_course_keeps_sheet_witness:
  "list_all sheet_course_ok [algebra, biology]
   \<and> (\<exists>per_course_results consolidated_all enrollment_all out sheets.
         collect
           [(algebra, fst (process_one_course ascii_capitalize campus no_clock algebra
                             ''https://lms.example.org'' ''secret'' fresh)),
            (biology, fst (process_one_course ascii_capitalize campus no_clock biology
                             ''https://lms.example.org'' ''secret'' fresh))]
           = Inr ((per_course_results, consolidated_all, enrollment_all), out)
       \<and> per_course_sheets ascii_lower per_course_results = Inr sheets
       \<and> \<lparr>title = ''bio2'',
           headers = base_headers @ [''Quiz: Final''] @ trailing_headers,
           data_rows = []\<rparr> \<in> set sheets)"
proof -
  let ?kvs = "[(''id'', JInt 2), (''fullname'', JStr ''Biology''), (''shortname'', JStr ''bio 2''),
               (''categoryid'', JInt 3)]"
  let ?X = "course_activity_columns ascii_capitalize campus ''https://lms.example.org'' ''secret'' (JInt 2)
              (say (processing_line (JStr ''Biology'') (JInt 2)) fresh)"
  let ?Y = "get_course_users campus ''https://lms.example.org'' ''secret'' (JInt 2) (snd ?X)"
  let ?completed =
    "[(algebra, fst (process_one_course ascii_capitalize campus no_clock algebra
                       ''https://lms.example.org'' ''secret'' fresh)),
      (JObj ?kvs, fst (process_one_course ascii_capitalize campus no_clock (JObj ?kvs)
                       ''https://lms.example.org'' ''secret'' fresh))]"
  have id: "obj_get ?kvs ''id'' JNull = JInt 2"
    and name: "obj_get ?kvs ''fullname'' (JStr []) = JStr ''Biology''"
    by (simp_all add: obj_get_def)
  have x: "?X = (Inr [(JInt 101, ''Quiz: Final'')], snd ?X)"
    using biology_columns by (metis prod.collapse)
  have y: "?Y = (Inl (RequestFailure ''503 Server Error''), snd ?Y)"
    using biology_users by (metis prod.collapse)
  have mem: "(JObj ?kvs, fst (process_one_course ascii_capitalize campus no_clock (JObj ?kvs)
                ''https://lms.example.org'' ''secret'' fresh)) \<in> set ?completed"
    by simp
  have ok: "list_all sheet_course_ok (map fst ?completed)"
    using courses_ok by (simp add: biology_def)
  from failed_users_course_keeps_sheet [of ascii_capitalize campus "''https://lms.example.org''" "''secret''" ?kvs fresh _ _ _ _ no_clock ?completed ascii_lower,
            unfolded id name, OF x y mem ok, THEN conjunct2]
    courses_ok biology_title
  show ?thesis
    unfolding biology_def by simp
qed

subsection \<open>The activity cells of a per-course row\<close>

lemma key_eq_JStr: "key_eq k (JStr s) \<longleftrightarrow> k = JStr s"
  by (cases k) (simp_all add: key_eq_def key_norm_def)

lemma fill_activities_append:
  "fill_activities (xs @ ys) a_map r = fill_activities ys a_map (fill_activities xs a_map r)"
  by (simp add: fill_activities_def)

lemma fill_activities_other:
  "col \<notin> snd ` set post \<Longrightarrow>
   dict_lookup (fill_activities post a_map r) (JStr col) = dict_lookup r (JStr col)"
proof (induction post arbitrary: r)
  case Nil
  then show ?case by (simp add: fill_activities_def)
next
  case (Cons c post)
  from Cons.prems have c: "snd c \<noteq> col" and post: "col \<notin> snd ` set post" by auto
  have "fill_activities (c # post) a_map r
          = fill_activities post a_map
              (dict_store r (JStr (snd c)) (JStr (dict_get a_map (fst c) ''Incomplete'')))"
    by (simp add: fill_activities_def)
  with Cons.IH [OF post] c show ?case
    by (simp add: dict_lookup_store key_eq_JStr)
qed

lemma fill_activities_last:
  assumes "activity_columns = pre @ [(cmid, col)] @ post" and "col \<notin> snd ` set post"
  shows "dict_lookup (fill_activities activity_columns a_map r) (JStr col)
           = Some (JStr (dict_get a_map cmid ''Incomplete''))"
proof -
  have "fill_activities activity_columns a_map r
          = fill_activities post a_map
              (dict_store (fill_activities pre a_map r) (JStr col)
                 (JStr (dict_get a_map cmid ''Incomplete'')))"
    unfolding assms(1) fill_activities_append by (simp add: fill_activities_def)
  then show ?thesis
    using fill_activities_other [OF assms(2)] by (simp add: dict_lookup_store)
qed

lemma last_column_with_name:
  assumes "c \<in> set activity_columns"
  shows "\<exists>pre cmid post. activity_columns = pre @ [(cmid, snd c)] @ post \<and> snd c \<notin> snd ` set post"
proof -
  from assms have "\<exists>x\<in>set activity_columns. snd x = snd c" by blast
  from split_list_last_prop [OF this] obtain pre x post
    where "activity_columns = pre @ x # post" "snd x = snd c" "\<forall>z\<in>set post. snd z \<noteq> snd c"
    by blast
  then have "activity_columns = pre @ [(fst x, snd c)] @ post \<and> snd c \<notin> snd ` set post"
    by (cases x) auto
  then show ?thesis by blast
qed

lemma dict_lookup_in_set: "dict_lookup d k = Some v \<Longrightarrow> \<exists>k'. (k', v) \<in> set d"
  by (induction d) (auto split: if_splits)

lemma dict_get_label:
  "\<forall>kv\<in>set a_map. snd kv \<in> status_labels \<Longrightarrow> dict_get a_map cmid ''Incomplete'' \<in> status_labels"
proof (cases "dict_lookup a_map cmid")
  case None
  then show ?thesis by (simp add: dict_get_def status_labels_def)
next
  case (Some v)
  assume a: "\<forall>kv\<in>set a_map. snd kv \<in> status_labels"
  from dict_lookup_in_set [OF Some] obtain k' where "(k', v) \<in> set a_map" ..
  with a have "v \<in> status_labels" by force
  with Some show ?thesis by (simp add: dict_get_def)
qed

lemma activity_map_labels: "\<forall>kv\<in>set (activity_map_of_response data). snd kv \<in> status_labels"
proof (cases "bindE (py_get data ''statuses'' (JList [])) py_iter")
  case (Inl e)
  then show ?thesis by (simp add: activity_map_of_response_def)
next
  case (Inr ss)
  have "\<forall>kv\<in>set (statuses_loop ss []).
          snd kv \<in> status_labels \<and> (\<exists>s\<in>set ss. key_eq (fst kv) (entry_cmid s))"
    by (rule statuses_loop_values) simp_all
  with Inr show ?thesis by (simp add: activity_map_of_response_def)
qed

lemma get_activity_completion_labels:
  "\<forall>kv\<in>set (fst (get_activity_completion srv url token cid uid st)). snd kv \<in> status_labels"
  using activity_map_labels
  by (simp add: get_activity_completion_def split: prod.splits sum.splits)

lemma process_user_course_row:
  assumes "process_user srv tf url token cid cname cshort activity_columns (JObj kvs) st
             = (Inr (course_row, consolidated_row, enrollment_row), st')"
  shows "\<exists>r. course_row = fill_activities activity_columns
           (fst (get_activity_completion srv url token cid (obj_get kvs ''id'' JNull)
                   (snd (get_course_completion srv url token cid (obj_get kvs ''id'' JNull) st)))) r"
  using assms
  by (auto simp: process_user_def course_row_of_def Let_def split: sum.splits prod.splits)

text \<open>
  A per-course row is a dictionary keyed by column name, and the loop of lines 182 and 183
  stores the activity cells in the order of the columns. So in the row of a user the cell
  of an activity column that is the last with its name holds the status of that activity,
  \<^verbatim>\<open>Incomplete\<close> when its id is absent from the user's completion mapping; and under the
  name of every activity column the row holds one of the three status labels.
\<close>

lemma last_column_cell:
  fixes srv url token cid cname cshort activity_columns st and kvs :: "(string \<times> json) list"
  defines "uid \<equiv> obj_get kvs ''id'' JNull"
  defines "a_map \<equiv> fst (get_activity_completion srv url token cid uid
                          (snd (get_course_completion srv url token cid uid st)))"
  assumes "process_user srv tf url token cid cname cshort activity_columns (JObj kvs) st
             = (Inr (course_row, consolidated_row, enrollment_row), st')"
  shows "(\<forall>pre cmid col post.
            activity_columns = pre @ [(cmid, col)] @ post \<and> col \<notin> snd ` set post
              \<and> dict_lookup a_map cmid = None
            \<longrightarrow> dict_lookup course_row (JStr col) = Some (JStr ''Incomplete''))
     \<and> (\<forall>c\<in>set activity_columns.
            \<exists>l\<in>status_labels. dict_lookup course_row (JStr (snd c)) = Some (JStr l))"
proof -
  from process_user_course_row [OF assms(3)] obtain r
    where row: "course_row = fill_activities activity_columns a_map r"
    unfolding a_map_def uid_def by blast
  have labels: "\<forall>kv\<in>set a_map. snd kv \<in> status_labels"
    unfolding a_map_def by (rule get_activity_completion_labels)
  show ?thesis
  proof (intro conjI allI impI ballI)
    fix pre cmid col post
    assume a: "activity_columns = pre @ [(cmid, col)] @ post \<and> col \<notin> snd ` set post
                 \<and> dict_lookup a_map cmid = None"
    then have a1: "activity_columns = pre @ [(cmid, col)] @ post" and a2: "col \<notin> snd ` set post"
      by blast+
    have "dict_lookup course_row (JStr col) = Some (JStr (dict_get a_map cmid ''Incomplete''))"
      unfolding row by (rule fill_activities_last [OF a1 a2])
    with a show "dict_lookup course_row (JStr col) = Some (JStr ''Incomplete'')"
      by (simp add: dict_get_def)
  next
    fix c assume "c \<in> set activity_columns"
    from last_column_with_name [OF this] obtain pre cmid post
      where "activity_columns = pre @ [(cmid, snd c)] @ post" "snd c \<notin> snd ` set post"
      by blast
    then have "dict_lookup course_row (JStr (snd c))
                 = Some (JStr (dict_get a_map cmid ''Incomplete''))"
      unfolding row by (rule fill_activities_last)
    with dict_get_label [OF labels, of cmid]
    show "\<exists>l\<in>status_labels. dict_lookup course_row (JStr (snd c)) = Some (JStr l)"
      by blast
  qed
qed

text \<open>
  C4. The specification has, in the per-course row of a user, \<^verbatim>\<open>Incomplete\<close> in the
  column of every activity whose id is absent from the user's completion mapping. The
  code does not keep to it where two activities share a column name. It builds one
  column per activity (lines 139 to 142, and one header per activity in line 291), but
  stores the cells under the column name (line 183), and two activities of one type and
  name have one column name. At the site with the two quizzes named Final: the first quiz,
  id 101, is absent from Ann's completion mapping; the course has the two activity columns
  \<^verbatim>\<open>Quiz: Final\<close> and \<^verbatim>\<open>Quiz: Final\<close>; her row holds \<^verbatim>\<open>Completed\<close> under that name, the
  status of the second quiz; and line 294 writes \<^verbatim>\<open>Completed\<close> into both columns of the
  sheet.
\<close>

theorem duplicate_column_name_overwrites_cell:
  "dict_lookup (fst (get_activity_completion twins ''https://lms.example.org'' ''secret''
                       (JInt 1) (JInt 10) fresh)) (JInt 101) = None
   \<and> (case fst (process_one_course ascii_capitalize twins no_clock algebra
                   ''https://lms.example.org'' ''secret'' fresh) of
        Inr (per_course_rows, consolidated_rows, enrollment_rows, act_cols) \<Rightarrow>
          act_cols = [''Quiz: Final'', ''Quiz: Final'']
          \<and> map (\<lambda>r. dict_lookup r (JStr ''Quiz: Final'')) per_course_rows
              = [Some (JStr ''Completed'')]
          \<and> map (\<lambda>r. map (\<lambda>h. dict_get r (JStr h) (JStr [])) act_cols) per_course_rows
              = [[JStr ''Completed'', JStr ''Completed'']]
      | Inl e \<Rightarrow> False)"
  by code_simp

end
